theory Spec2Isabelle
  imports Complex_Main
begin

section \<open>Arrays\<close>

text \<open>
  The notebook \<^verbatim>\<open>imputer/BGCP.ipynb\<close> computes with numpy arrays of floats.  They are
  modelled as nested lists of reals in row-major order: a vector is a list, a matrix the
  list of its rows, a three-way tensor the list of its slices along the first axis
  (\<open>t ! i ! j ! k\<close> is \<^verbatim>\<open>t[i, j, k]\<close>).  Float rounding is not modelled: arithmetic is
  exact.  A nested list carries its shape only when no dimension is zero, so the theorems
  assume positive dimensions and consistently shaped arguments; on other arguments numpy
  raises a shape error (or returns NaN), which the model does not reproduce.
  Exceptions raised by the notebook's own indexing are values of type \<open>error\<close>.
\<close>

type_synonym vec = "real list"
type_synonym mat = "real list list"
type_synonym tensor = "real list list list"

datatype error = IndexError | UnboundLocalError | AxisError

definition ncols :: "'a list list \<Rightarrow> nat" where
  "ncols a = (case a of [] \<Rightarrow> 0 | r # _ \<Rightarrow> length r)"

definition is_vec :: "nat \<Rightarrow> 'a list \<Rightarrow> bool" where
  "is_vec n v \<longleftrightarrow> length v = n"

definition is_mat :: "nat \<Rightarrow> nat \<Rightarrow> 'a list list \<Rightarrow> bool" where
  "is_mat m n a \<longleftrightarrow> length a = m \<and> list_all (\<lambda>r. length r = n) a"

definition is_tensor :: "nat \<Rightarrow> nat \<Rightarrow> nat \<Rightarrow> 'a list list list \<Rightarrow> bool" where
  "is_tensor m n f t \<longleftrightarrow> length t = m \<and> list_all (is_mat n f) t"

text \<open>\<^verbatim>\<open>t.shape\<close> of a three-way array.\<close>

definition shape3 :: "'a list list list \<Rightarrow> nat \<times> nat \<times> nat" where
  "shape3 t = (length t, ncols t, (case t of [] \<Rightarrow> 0 | s # _ \<Rightarrow> ncols s))"

text \<open>\<^verbatim>\<open>a.T\<close> of a matrix: \<open>a.T[j, i] = a[i, j]\<close>.\<close>

definition mat_T :: "'a list list \<Rightarrow> 'a list list" where
  "mat_T a = map (\<lambda>j. map (\<lambda>r. r ! j) a) [0..<ncols a]"

definition dot :: "vec \<Rightarrow> vec \<Rightarrow> real" where
  "dot u v = sum_list (map2 (*) u v)"

text \<open>\<^verbatim>\<open>a @ b\<close> for two matrices, and for a matrix and a vector.\<close>

definition matmul :: "mat \<Rightarrow> mat \<Rightarrow> mat" where
  "matmul a b = map (\<lambda>r. map (\<lambda>c. dot r c) (mat_T b)) a"

definition matvec :: "mat \<Rightarrow> vec \<Rightarrow> vec" where
  "matvec a v = map (\<lambda>r. dot r v) a"

definition vec_add :: "vec \<Rightarrow> vec \<Rightarrow> vec" where
  "vec_add u v = map2 (+) u v"

definition vec_sub :: "vec \<Rightarrow> vec \<Rightarrow> vec" where
  "vec_sub u v = map2 (-) u v"

definition vec_scale :: "real \<Rightarrow> vec \<Rightarrow> vec" where
  "vec_scale c v = map (\<lambda>x. c * x) v"

definition vec_div :: "vec \<Rightarrow> real \<Rightarrow> vec" where
  "vec_div v c = map (\<lambda>x. x / c) v"

definition mat_add :: "mat \<Rightarrow> mat \<Rightarrow> mat" where
  "mat_add a b = map2 vec_add a b"

definition mat_scale :: "real \<Rightarrow> mat \<Rightarrow> mat" where
  "mat_scale c a = map (vec_scale c) a"

definition mat_div :: "mat \<Rightarrow> real \<Rightarrow> mat" where
  "mat_div a c = map (\<lambda>r. vec_div r c) a"

definition tensor_add :: "tensor \<Rightarrow> tensor \<Rightarrow> tensor" where
  "tensor_add s t = map2 mat_add s t"

definition tensor_sub :: "tensor \<Rightarrow> tensor \<Rightarrow> tensor" where
  "tensor_sub s t = map2 (map2 vec_sub) s t"

definition tensor_scale :: "real \<Rightarrow> tensor \<Rightarrow> tensor" where
  "tensor_scale c t = map (mat_scale c) t"

definition tensor_div :: "tensor \<Rightarrow> real \<Rightarrow> tensor" where
  "tensor_div t c = map (\<lambda>a. mat_div a c) t"

text \<open>\<^verbatim>\<open>np.zeros(n)\<close>, \<^verbatim>\<open>np.zeros((m, n))\<close>, \<^verbatim>\<open>np.zeros((m, n, f))\<close> and \<^verbatim>\<open>np.eye(n)\<close>.\<close>

definition zeros1 :: "nat \<Rightarrow> vec" where
  "zeros1 n = replicate n 0"

definition zeros2 :: "nat \<Rightarrow> nat \<Rightarrow> mat" where
  "zeros2 m n = replicate m (zeros1 n)"

definition zeros3 :: "nat \<Rightarrow> nat \<Rightarrow> nat \<Rightarrow> tensor" where
  "zeros3 m n f = replicate m (zeros2 n f)"

definition eye :: "nat \<Rightarrow> mat" where
  "eye n = map (\<lambda>i. map (\<lambda>j. if i = j then 1 else 0) [0..<n]) [0..<n]"

text \<open>\<^verbatim>\<open>np.outer(u, v)\<close>, also written \<^verbatim>\<open>np.einsum('i, j -> ij', u, v)\<close>.\<close>

definition outer :: "vec \<Rightarrow> vec \<Rightarrow> mat" where
  "outer u v = map (\<lambda>x. map (\<lambda>y. x * y) v) u"

section \<open>Linear algebra kernels\<close>

text \<open>
  \<^verbatim>\<open>def kr_prod(a, b):
    return np.einsum('ir, jr -> ijr', a, b).reshape(a.shape[0] * b.shape[0], -1)\<close>
  The \<^verbatim>\<open>einsum\<close> gives the array whose entry \<open>(i, j)\<close> is the elementwise product of row
  \<open>i\<close> of \<open>a\<close> and row \<open>j\<close> of \<open>b\<close>; the reshape (C order) lists these rows with \<open>j\<close> running
  fastest.
\<close>

definition einsum_ir_jr_ijr :: "mat \<Rightarrow> mat \<Rightarrow> tensor" where
  "einsum_ir_jr_ijr a b = map (\<lambda>ra. map (\<lambda>rb. map2 (*) ra rb) b) a"

definition kr_prod :: "mat \<Rightarrow> mat \<Rightarrow> mat" where
  "kr_prod a b = concat (einsum_ir_jr_ijr a b)"

text \<open>
  \<^verbatim>\<open>def cp_combine(var):
    return np.einsum('is, js, ts -> ijt', var[0], var[1], var[2])\<close>
\<close>

fun cp_combine :: "mat list \<Rightarrow> error + tensor" where
  "cp_combine (u # v # x # rest) =
     Inr (map (\<lambda>ui. map (\<lambda>vj. map (\<lambda>xt. sum_list (map2 (*) (map2 (*) ui vj) xt)) x) v) u)"
| "cp_combine var = Inl IndexError"

text \<open>
  \<^verbatim>\<open>def ten2mat(tensor, mode):
    return np.reshape(np.moveaxis(tensor, mode, 0), (tensor.shape[mode], -1), order = 'F')\<close>
  \<^verbatim>\<open>np.moveaxis(tensor, mode, 0)\<close> puts axis \<open>mode\<close> first and keeps the order of the other
  two; an axis that the array does not have raises \<^verbatim>\<open>AxisError\<close>.  The reshape in Fortran
  order of an array of shape \<open>(d, p, q)\<close> to \<open>(d, p * q)\<close> puts entry \<open>(a, b, c)\<close> into column
  \<open>b + p * c\<close> of row \<open>a\<close>: the first of the two flattened indices runs fastest.
\<close>

definition moveaxis0 :: "'a list list list \<Rightarrow> nat \<Rightarrow> error + 'a list list list" where
  "moveaxis0 t mode =
     (case shape3 t of (m, n, f) \<Rightarrow>
        if mode = 0 then Inr t
        else if mode = 1 then Inr (map (\<lambda>j. map (\<lambda>i. t ! i ! j) [0..<m]) [0..<n])
        else if mode = 2 then
          Inr (map (\<lambda>k. map (\<lambda>i. map (\<lambda>j. t ! i ! j ! k) [0..<n]) [0..<m]) [0..<f])
        else Inl AxisError)"

definition reshape_F :: "'a list list list \<Rightarrow> 'a list list" where
  "reshape_F t =
     map (\<lambda>s. concat (map (\<lambda>c. map (\<lambda>b. s ! b ! c) [0..<length s]) [0..<ncols s])) t"

definition ten2mat :: "'a list list list \<Rightarrow> nat \<Rightarrow> error + 'a list list" where
  "ten2mat t mode = (case moveaxis0 t mode of Inl e \<Rightarrow> Inl e | Inr t' \<Rightarrow> Inr (reshape_F t'))"

text \<open>
  \<^verbatim>\<open>def cov_mat(mat):
    dim1, dim2 = mat.shape
    new_mat = np.zeros((dim2, dim2))
    mat_bar = np.mean(mat, axis = 0)
    for i in range(dim1):
        new_mat += np.einsum('i, j -> ij', mat[i, :] - mat_bar, mat[i, :] - mat_bar)
    return new_mat\<close>
\<close>

definition mean_axis0 :: "mat \<Rightarrow> vec" where
  "mean_axis0 a = map (\<lambda>j. sum_list (map (\<lambda>r. r ! j) a) / real (length a)) [0..<ncols a]"

definition cov_mat :: "mat \<Rightarrow> mat" where
  "cov_mat a =
     (let dim1 = length a; dim2 = ncols a; mat_bar = mean_axis0 a
      in foldl (\<lambda>new_mat i. mat_add new_mat (outer (vec_sub (a ! i) mat_bar) (vec_sub (a ! i) mat_bar)))
           (zeros2 dim2 dim2) [0..<dim1])"

text \<open>
  Modelled from the spec: the notebook has no function that folds a matrix back into a
  tensor.  \<open>mat2ten\<close> is the re-folding "with the same element-ordering convention (mode k
  moved to the leading axis, remainder flattened in Fortran order)": the row \<open>a\<close> of the
  matrix is cut into columns of length \<open>p\<close>, entry \<open>b + p * c\<close> becoming entry \<open>(a, b, c)\<close>
  of an array of shape \<open>(d, p, q)\<close>, and the leading axis is moved back to position
  \<open>mode\<close>.  Its second argument is the shape \<open>(m, n, f)\<close> of the tensor to rebuild.
\<close>

definition unflatten_F :: "nat \<Rightarrow> nat \<Rightarrow> 'a list \<Rightarrow> 'a list list" where
  "unflatten_F p q row = map (\<lambda>b. map (\<lambda>c. row ! (b + p * c)) [0..<q]) [0..<p]"

definition mat2ten :: "'a list list \<Rightarrow> nat \<times> nat \<times> nat \<Rightarrow> nat \<Rightarrow> error + 'a list list list" where
  "mat2ten a shape mode =
     (case shape of (m, n, f) \<Rightarrow>
        if mode = 0 then Inr (map (unflatten_F n f) a)
        else if mode = 1 then
          (let x = map (unflatten_F m f) a
           in Inr (map (\<lambda>i. map (\<lambda>j. x ! j ! i) [0..<n]) [0..<m]))
        else if mode = 2 then
          (let x = map (unflatten_F m n) a
           in Inr (map (\<lambda>i. map (\<lambda>j. map (\<lambda>k. x ! k ! i ! j) [0..<f]) [0..<n]) [0..<m]))
        else Inl AxisError)"

section \<open>Library calls\<close>

text \<open>
  The notebook calls \<^verbatim>\<open>numpy.linalg.inv\<close>, \<^verbatim>\<open>numpy.random.multivariate_normal\<close> (as
  \<^verbatim>\<open>mvnrnd\<close>), \<^verbatim>\<open>scipy.stats.wishart(df, scale).rvs()\<close> and \<^verbatim>\<open>numpy.random.gamma\<close>.  They
  are parameters of the model.  A draw takes the parameters of its distribution and the
  state of the global random generator, and returns the value drawn and the next state,
  so that the order of the draws is the order in which the state is threaded.
  \<^verbatim>\<open>numpy.random.gamma(shape, scale)\<close> takes a scale, not a rate.  The failures of these
  calls (a singular matrix, a scale that is not positive definite) are not modelled.

  The Wishart draw is taken to return a matrix.  That is what \<^verbatim>\<open>rvs()\<close> returns for a scale of
  two or more rows.  For a \<open>1 \<times> 1\<close> scale it returns a scalar, on which the next line of
  \<^verbatim>\<open>sample_hyperparameter\<close>, the call of \<^verbatim>\<open>inv\<close>, raises \<^verbatim>\<open>LinAlgError\<close>: at rank 1 the program
  never gets past its first Wishart draw, and what the model computes there is not what the
  program does.  The statements about the values of \<open>sample_hyperparameter\<close> are therefore
  made for a rank of at least two.
\<close>

record 'g lib =
  linalg_inv :: "mat \<Rightarrow> mat"
  mvnrnd :: "vec \<Rightarrow> mat \<Rightarrow> 'g \<Rightarrow> vec \<times> 'g"
  wishart_rvs :: "real \<Rightarrow> mat \<Rightarrow> 'g \<Rightarrow> mat \<times> 'g"
  random_gamma :: "real \<Rightarrow> real \<Rightarrow> 'g \<Rightarrow> real \<times> 'g"

text \<open>
  \<^verbatim>\<open>np.where(b)\<close> on a boolean array lists the positions of its true entries in row-major
  order (numpy returns one index array per axis; the model zips them).  \<^verbatim>\<open>t[pos]\<close> with
  such a tuple of index arrays gathers the entries at these positions and raises
  \<^verbatim>\<open>IndexError\<close> on a position outside the array; \<^verbatim>\<open>t[pos] = v\<close> stores \<open>v\<close> there.
\<close>

definition np_where2 :: "bool list list \<Rightarrow> (nat \<times> nat) list" where
  "np_where2 b =
     concat (map (\<lambda>i. map (\<lambda>j. (i, j)) (filter (\<lambda>j. b ! i ! j) [0..<length (b ! i)]))
       [0..<length b])"

definition np_where3 :: "bool list list list \<Rightarrow> (nat \<times> nat \<times> nat) list" where
  "np_where3 b =
     concat (map (\<lambda>i. map (\<lambda>p. (i, fst p, snd p)) (np_where2 (b ! i))) [0..<length b])"

definition in_range3 :: "'a list list list \<Rightarrow> nat \<times> nat \<times> nat \<Rightarrow> bool" where
  "in_range3 t p =
     (case p of (i, j, k) \<Rightarrow> i < length t \<and> j < length (t ! i) \<and> k < length (t ! i ! j))"

definition fancy_index :: "'a list list list \<Rightarrow> (nat \<times> nat \<times> nat) list \<Rightarrow> error + 'a list" where
  "fancy_index t pos =
     (if list_all (in_range3 t) pos then Inr (map (\<lambda>(i, j, k). t ! i ! j ! k) pos)
      else Inl IndexError)"

definition fancy_assign :: "'a list list list \<Rightarrow> (nat \<times> nat \<times> nat) list \<Rightarrow> 'a \<Rightarrow> 'a list list list" where
  "fancy_assign t pos v =
     foldl (\<lambda>t' (i, j, k). t'[i := (t' ! i)[j := (t' ! i ! j)[k := v]]]) t pos"

section \<open>Sampling the hyperparameters\<close>

text \<open>
  \<^verbatim>\<open>def sample_hyperparameter(factor_k, mu0, beta0, W0, nu0):
    dim = factor_k.shape[0]
    mat_bar = np.mean(factor_k, axis = 0)
    var_mu_hyper = (dim * mat_bar + beta0 * mu0) / (dim + beta0)
    var_W_hyper = inv(inv(W0) + cov_mat(factor_k) + dim * beta0 / (dim + beta0)
                      * np.outer(mat_bar - mu0, mat_bar - mu0))
    var_Lambda_hyper = wishart(df = dim + nu0, scale = var_W_hyper, seed = None).rvs()
    var_mu_hyper = mvnrnd(var_mu_hyper, inv((dim + beta0) * var_Lambda_hyper))
    return var_mu_hyper, var_Lambda_hyper\<close>
\<close>

definition sample_hyperparameter ::
  "'g lib \<Rightarrow> mat \<Rightarrow> vec \<Rightarrow> real \<Rightarrow> mat \<Rightarrow> real \<Rightarrow> 'g \<Rightarrow> (vec \<times> mat) \<times> 'g" where
  "sample_hyperparameter lib factor_k mu0 beta0 W0 nu0 g =
     (let dim = real (length factor_k);
          mat_bar = mean_axis0 factor_k;
          var_mu_hyper = vec_div (vec_add (vec_scale dim mat_bar) (vec_scale beta0 mu0)) (dim + beta0);
          var_W_hyper = linalg_inv lib
            (mat_add (mat_add (linalg_inv lib W0) (cov_mat factor_k))
               (mat_scale (dim * beta0 / (dim + beta0))
                  (outer (vec_sub mat_bar mu0) (vec_sub mat_bar mu0))));
          (var_Lambda_hyper, g1) = wishart_rvs lib (dim + nu0) var_W_hyper g;
          (var_mu_hyper', g2) =
            mvnrnd lib var_mu_hyper (linalg_inv lib (mat_scale (dim + beta0) var_Lambda_hyper)) g1
      in ((var_mu_hyper', var_Lambda_hyper), g2))"

section \<open>Sampling the precision\<close>

text \<open>
  \<^verbatim>\<open>def sample_precision_tau(sparse_tensor, tensor_hat, pos_train, alpha, beta):
    var_alpha = alpha + 0.5 * sparse_tensor[pos_train].shape[0]
    var_beta = beta + 0.5 * np.sum((sparse_tensor - tensor_hat)[pos_train] ** 2)
    return np.random.gamma(var_alpha, 1 / var_beta)\<close>
\<close>

definition sample_precision_tau ::
  "'g lib \<Rightarrow> tensor \<Rightarrow> tensor \<Rightarrow> (nat \<times> nat \<times> nat) list \<Rightarrow> real \<Rightarrow> real \<Rightarrow> 'g
     \<Rightarrow> error + real \<times> 'g" where
  "sample_precision_tau lib sparse_tensor tensor_hat pos_train alpha beta g =
     (case fancy_index sparse_tensor pos_train of
        Inl e \<Rightarrow> Inl e
      | Inr observed \<Rightarrow>
          (case fancy_index (tensor_sub sparse_tensor tensor_hat) pos_train of
             Inl e \<Rightarrow> Inl e
           | Inr residual \<Rightarrow>
               (let var_alpha = alpha + 0.5 * real (length observed);
                    var_beta = beta + 0.5 * sum_list (map (\<lambda>x. x ^ 2) residual)
                in Inr (random_gamma lib var_alpha (1 / var_beta) g))))"

section \<open>Sampling a factor matrix\<close>

text \<open>
  The strategy switch at the head of \<open>sample_factor\<close>:
  \<^verbatim>\<open>    dim, rank = factor[k].shape
    if dim * rank ** 2 > 1e+8:
        vargin = 1
    if np.prod(sparse_tensor.shape) / dim * rank ** 2 > 1e+8:
        vargin = 1
    if dim * rank ** 2 > 1e+8:
        vargin = 1\<close>
\<close>

definition choose_vargin :: "nat \<Rightarrow> nat \<Rightarrow> nat \<times> nat \<times> nat \<Rightarrow> int \<Rightarrow> int" where
  "choose_vargin dim_k rank shape vargin =
     (case shape of (m, n, f) \<Rightarrow>
        (let v1 = (if real (dim_k * rank ^ 2) > 100000000 then 1 else vargin);
             v2 = (if real (m * n * f) / real dim_k * real (rank ^ 2) > 100000000 then 1 else v1);
             v3 = (if real (dim_k * rank ^ 2) > 100000000 then 1 else v2)
         in v3))"

text \<open>
  \<^verbatim>\<open>a.reshape([d1, d2, n])\<close> (C order) of a matrix with \<open>d1 * d2\<close> rows of length \<open>n\<close>;
  \<^verbatim>\<open>np.dstack([a] * n)\<close> for a matrix \<open>a\<close>, whose entry \<open>(i, j, l)\<close> is \<open>a[i, j]\<close>; and
  \<^verbatim>\<open>np.dstack([v] * n)[0, :, :]\<close> for a vector \<open>v\<close>, whose entry \<open>(i, l)\<close> is \<open>v[i]\<close>.
\<close>

definition reshape_C3 :: "nat \<Rightarrow> nat \<Rightarrow> 'a list list \<Rightarrow> 'a list list list" where
  "reshape_C3 d1 d2 a = map (\<lambda>i. map (\<lambda>j. a ! (i * d2 + j)) [0..<d2]) [0..<d1]"

definition dstack_mat :: "mat \<Rightarrow> nat \<Rightarrow> tensor" where
  "dstack_mat a n = map (map (replicate n)) a"

definition dstack_vec0 :: "vec \<Rightarrow> nat \<Rightarrow> mat" where
  "dstack_vec0 v n = map (replicate n) v"

text \<open>
  The slices \<^verbatim>\<open>t[k, :, :]\<close>, \<^verbatim>\<open>t[:, k, :]\<close> and \<^verbatim>\<open>t[:, :, k]\<close>; an index outside the axis
  raises \<^verbatim>\<open>IndexError\<close>.
\<close>

definition slice_axis0 :: "tensor \<Rightarrow> nat \<Rightarrow> error + mat" where
  "slice_axis0 t k = (if k < length t then Inr (t ! k) else Inl IndexError)"

definition slice_axis1 :: "tensor \<Rightarrow> nat \<Rightarrow> error + mat" where
  "slice_axis1 t k =
     (case shape3 t of (m, n, f) \<Rightarrow>
        if k < n then Inr (map (\<lambda>s. s ! k) t) else Inl IndexError)"

definition slice_axis2 :: "tensor \<Rightarrow> nat \<Rightarrow> error + mat" where
  "slice_axis2 t k =
     (case shape3 t of (m, n, f) \<Rightarrow>
        if k < f then Inr (map (map (\<lambda>r. r ! k)) t) else Inl IndexError)"

text \<open>A loop whose body may raise: the first exception ends it.\<close>

fun fold_err :: "('s \<Rightarrow> 'a \<Rightarrow> error + 's) \<Rightarrow> 's \<Rightarrow> 'a list \<Rightarrow> error + 's" where
  "fold_err body s [] = Inr s"
| "fold_err body s (x # xs) =
     (case body s x of Inl e \<Rightarrow> Inl e | Inr s' \<Rightarrow> fold_err body s' xs)"

text \<open>
  The body of the row loop of the dense strategy:
  \<^verbatim>\<open>        for i in range(dim):
            var_Lambda = var3[:, :, i]
            inv_var_Lambda = inv((var_Lambda + var_Lambda.T) / 2)
            factor[k][i, :] = mvnrnd(inv_var_Lambda @ var4[:, i], inv_var_Lambda)\<close>
  The state of the loop is the matrix \<^verbatim>\<open>factor[k]\<close>, updated in place, and the random
  generator.
\<close>

definition dense_row :: "'g lib \<Rightarrow> tensor \<Rightarrow> mat \<Rightarrow> mat \<times> 'g \<Rightarrow> nat \<Rightarrow> mat \<times> 'g" where
  "dense_row lib var3 var4 s i =
     (case s of (factor_k, g) \<Rightarrow>
        (let var_Lambda = map (map (\<lambda>v. v ! i)) var3;
             inv_var_Lambda = linalg_inv lib (mat_div (mat_add var_Lambda (mat_T var_Lambda)) 2);
             (row, g') = mvnrnd lib (matvec inv_var_Lambda (map (\<lambda>r. r ! i) var4)) inv_var_Lambda g
         in (factor_k[i := row], g')))"

text \<open>
  The body of the row loop of the per-row strategy, here for \<open>k = 0\<close>:
  \<^verbatim>\<open>            for i in range(dim):
                temp1 = np.zeros(rank)
                temp2 = np.zeros((rank, rank))
                pos0 = np.where(binary_tensor[k, :, :] != 0)
                for t in range(len(pos0[0])):
                    var = factor[k + 1][pos0[0][t], :] * factor[k + 2][pos0[1][t], :]
                    temp1 += (var * sparse_tensor[k, pos0[0][t], pos0[1][t]])
                    temp2 += np.outer(var, var)
                var_Lambda = tau * temp2 + var_Lambda_hyper
                inv_var_Lambda = inv((var_Lambda + var_Lambda.T) / 2)
                var_mu = inv_var_Lambda @ (tau * temp1 + var_mu0)
                factor[k][i, :] = mvnrnd(var_mu, inv_var_Lambda)\<close>
  The three branches of the source differ in the slice of \<^verbatim>\<open>binary_tensor\<close> (argument
  \<open>slice\<close>), in the two factor matrices (\<open>fa\<close>, \<open>fb\<close>) and in the entry of
  \<^verbatim>\<open>sparse_tensor\<close> read at a position (\<open>y\<close>).  The slice is taken at the loop-invariant
  index \<open>k\<close> in all three: the row index \<open>i\<close> is used only in the final assignment.
  The two factor matrices are read inside the loop over the observed positions only: on a
  list that is too short, \<^verbatim>\<open>factor[k + 1]\<close> or \<^verbatim>\<open>factor[k + 2]\<close> raises \<^verbatim>\<open>IndexError\<close> at the
  first observed position, and nothing is raised when the slice has none.  \<open>factor_at\<close> is
  the indexing of the list, and \<open>fa\<close>, \<open>fb\<close> are its results.
\<close>

definition factor_at :: "mat list \<Rightarrow> nat \<Rightarrow> error + mat" where
  "factor_at factor j = (if j < length factor then Inr (factor ! j) else Inl IndexError)"

definition sparse_row ::
  "'g lib \<Rightarrow> real \<Rightarrow> nat \<Rightarrow> vec \<Rightarrow> mat \<Rightarrow> error + mat \<Rightarrow> error + mat \<Rightarrow> error + mat
     \<Rightarrow> (nat \<Rightarrow> nat \<Rightarrow> real) \<Rightarrow> mat \<times> 'g \<Rightarrow> nat \<Rightarrow> error + mat \<times> 'g" where
  "sparse_row lib tau rank var_mu0 var_Lambda_hyper slice fa fb y s i =
     (case s of (factor_k, g) \<Rightarrow>
        (case slice of
           Inl e \<Rightarrow> Inl e
         | Inr bs \<Rightarrow>
             (let pos0 = np_where2 (map (map (\<lambda>x. x \<noteq> 0)) bs)
              in case (if pos0 = [] then Inr ([], [])
                       else (case fa of
                               Inl e \<Rightarrow> Inl e
                             | Inr fa' \<Rightarrow> (case fb of Inl e \<Rightarrow> Inl e | Inr fb' \<Rightarrow> Inr (fa', fb')))) of
                   Inl e \<Rightarrow> Inl e
                 | Inr (fa', fb') \<Rightarrow>
                     (let (temp1, temp2) =
                             foldl (\<lambda>(temp1, temp2) (a, b).
                                      (let var = map2 (*) (fa' ! a) (fb' ! b)
                                       in (vec_add temp1 (vec_scale (y a b) var),
                                           mat_add temp2 (outer var var))))
                               (zeros1 rank, zeros2 rank rank) pos0;
                          var_Lambda = mat_add (mat_scale tau temp2) var_Lambda_hyper;
                          inv_var_Lambda =
                            linalg_inv lib (mat_div (mat_add var_Lambda (mat_T var_Lambda)) 2);
                          var_mu = matvec inv_var_Lambda (vec_add (vec_scale tau temp1) var_mu0);
                          (row, g') = mvnrnd lib var_mu inv_var_Lambda g
                      in Inr (factor_k[i := row], g')))))"

text \<open>
  \<^verbatim>\<open>def sample_factor(sparse_tensor, binary_tensor, tau, factor, var_mu_hyper,
                  var_Lambda_hyper, k, vargin = 0):\<close>
  The dense strategy (\<^verbatim>\<open>vargin == 0\<close>):
  \<^verbatim>\<open>        if k == 0:
            var1 = kr_prod(factor[k + 2], factor[k + 1]).T
        elif k == 1:
            var1 = kr_prod(factor[k + 1], factor[k - 1]).T
        elif k == 2:
            var1 = kr_prod(factor[k - 1], factor[k - 2]).T
        var2 = kr_prod(var1, var1)
        var3 = (tau * (var2 @ ten2mat(binary_tensor, k).T).reshape([rank, rank, dim])
                + np.dstack([var_Lambda_hyper] * dim))
        var4 = (tau * var1 @ ten2mat(sparse_tensor, k).T
                + np.dstack([var_Lambda_hyper @ var_mu_hyper] * dim)[0, :, :])\<close>
  followed by the row loop; the per-row strategy (\<^verbatim>\<open>vargin == 1\<close>) starts with
  \<^verbatim>\<open>var_mu0 = var_Lambda_hyper @ var_mu_hyper\<close> and has one row loop for each of
  \<open>k = 0, 1, 2\<close>.  The function ends with \<^verbatim>\<open>return factor[k]\<close>; the model returns this
  matrix and the generator.  In the dense strategy a list \<open>factor\<close> with fewer than three
  matrices raises \<^verbatim>\<open>IndexError\<close> where \<^verbatim>\<open>var1\<close> is computed, before the row loop; the per-row
  strategy reads the other two matrices inside its loops.  With \<open>k > 2\<close> the dense
  strategy reads the unassigned \<^verbatim>\<open>var1\<close>, and the per-row strategy has no branch and
  returns \<^verbatim>\<open>factor[k]\<close> as it is.
\<close>

definition sample_factor ::
  "'g lib \<Rightarrow> tensor \<Rightarrow> tensor \<Rightarrow> real \<Rightarrow> mat list \<Rightarrow> vec \<Rightarrow> mat \<Rightarrow> nat \<Rightarrow> int \<Rightarrow> 'g
     \<Rightarrow> error + mat \<times> 'g" where
  "sample_factor lib sparse_tensor binary_tensor tau factor var_mu_hyper var_Lambda_hyper k vargin g =
     (if length factor \<le> k then Inl IndexError
      else
        (let dim = length (factor ! k);
             rank = ncols (factor ! k);
             vargin = choose_vargin dim rank (shape3 sparse_tensor) vargin
         in if vargin = 0 then
              (if 2 < k then Inl UnboundLocalError
               else if length factor < 3 then Inl IndexError
               else
                 (let var1 = (if k = 0 then mat_T (kr_prod (factor ! (k + 2)) (factor ! (k + 1)))
                              else if k = 1 then mat_T (kr_prod (factor ! (k + 1)) (factor ! (k - 1)))
                              else mat_T (kr_prod (factor ! (k - 1)) (factor ! (k - 2))));
                      var2 = kr_prod var1 var1
                  in case ten2mat binary_tensor k of
                       Inl e \<Rightarrow> Inl e
                     | Inr bmat \<Rightarrow>
                         (case ten2mat sparse_tensor k of
                            Inl e \<Rightarrow> Inl e
                          | Inr ymat \<Rightarrow>
                              (let var3 = tensor_add
                                     (tensor_scale tau (reshape_C3 rank rank (matmul var2 (mat_T bmat))))
                                     (dstack_mat var_Lambda_hyper dim);
                                   var4 = mat_add (matmul (mat_scale tau var1) (mat_T ymat))
                                     (dstack_vec0 (matvec var_Lambda_hyper var_mu_hyper) dim)
                               in Inr (foldl (dense_row lib var3 var4) (factor ! k, g) [0..<dim])))))
            else if vargin = 1 then
              (let var_mu0 = matvec var_Lambda_hyper var_mu_hyper
               in if 2 < k then Inr (factor ! k, g)
                  else if k = 0 then
                    fold_err (sparse_row lib tau rank var_mu0 var_Lambda_hyper
                        (slice_axis0 binary_tensor k) (factor_at factor (k + 1))
                        (factor_at factor (k + 2)) (\<lambda>a b. sparse_tensor ! k ! a ! b))
                      (factor ! k, g) [0..<dim]
                  else if k = 1 then
                    fold_err (sparse_row lib tau rank var_mu0 var_Lambda_hyper
                        (slice_axis1 binary_tensor k) (factor_at factor (k - 1))
                        (factor_at factor (k + 1)) (\<lambda>a b. sparse_tensor ! a ! k ! b))
                      (factor ! k, g) [0..<dim]
                  else
                    fold_err (sparse_row lib tau rank var_mu0 var_Lambda_hyper
                        (slice_axis2 binary_tensor k) (factor_at factor (k - 2))
                        (factor_at factor (k - 1)) (\<lambda>a b. sparse_tensor ! a ! b ! k))
                      (factor ! k, g) [0..<dim])
            else Inr (factor ! k, g)))"

section \<open>Performance metrics\<close>

text \<open>
  \<^verbatim>\<open>def compute_mape(var, var_hat):
    return np.sum(np.abs(var - var_hat) / var) / var.shape[0]

def compute_rmse(var, var_hat):
    return  np.sqrt(np.sum((var - var_hat) ** 2) / var.shape[0])\<close>
  Neither function checks its arguments or raises.  In numpy's float arithmetic a division
  by zero is not an exception: it gives \<^verbatim>\<open>inf\<close> or \<^verbatim>\<open>nan\<close> (with a \<^verbatim>\<open>RuntimeWarning\<close> on
  the error stream), the sum of an array with such an entry is \<^verbatim>\<open>inf\<close> or \<^verbatim>\<open>nan\<close>, and so
  is its quotient by the length.  \<open>NonFinite\<close> stands for these values.  On empty arrays
  both functions divide \<open>0.0\<close> by \<open>0\<close>.  Where no divisor is zero the result is \<open>Exact x\<close>,
  with \<open>x\<close> the value of the expression over the real numbers.  The rounding and the
  overflow of the 64-bit floats are not modelled, and the arrays of the model hold real
  numbers only: \<open>Exact x\<close> does not say that the float the program computes is finite (a
  sum that overflows is \<^verbatim>\<open>inf\<close>, and an estimate that is \<^verbatim>\<open>inf\<close> or \<^verbatim>\<open>nan\<close> gives \<^verbatim>\<open>inf\<close> or
  \<^verbatim>\<open>nan\<close>).
\<close>

datatype npfloat = Exact real | NonFinite

definition compute_mape :: "vec \<Rightarrow> vec \<Rightarrow> npfloat" where
  "compute_mape var var_hat =
     (if list_ex (\<lambda>v. v = 0) var \<or> length var = 0 then NonFinite
      else Exact (sum_list (map2 (\<lambda>v v_hat. \<bar>v - v_hat\<bar> / v) var var_hat) / real (length var)))"

definition compute_rmse :: "vec \<Rightarrow> vec \<Rightarrow> npfloat" where
  "compute_rmse var var_hat =
     (if length var = 0 then NonFinite
      else Exact (sqrt (sum_list (map2 (\<lambda>v v_hat. (v - v_hat) ^ 2) var var_hat) / real (length var))))"

section \<open>The Gibbs sampler\<close>

text \<open>
  The variables that \<open>BGCP\<close> sets before its loop and only reads afterwards:
  \<^verbatim>\<open>    dim = np.array(sparse_tensor.shape)
    rank = factor[0].shape[1]
    pos_train = np.where(sparse_tensor != 0)
    pos_test = np.where((dense_tensor != 0) & (sparse_tensor == 0))
    binary_tensor = np.zeros(dim)
    binary_tensor[pos_train] = 1

    beta0 = 1
    nu0 = rank
    mu0 = np.zeros((rank))
    W0 = np.eye(rank)
    tau = 1
    alpha = 1e-6
    beta = 1e-6\<close>
  (\<open>tau\<close> is a variable of the loop and belongs to the state below.)
\<close>

record bgcp_locals =
  c_dense_tensor :: tensor
  c_sparse_tensor :: tensor
  c_shape :: "nat \<times> nat \<times> nat"
  c_rank :: nat
  c_pos_train :: "(nat \<times> nat \<times> nat) list"
  c_pos_test :: "(nat \<times> nat \<times> nat) list"
  c_binary_tensor :: tensor
  c_beta0 :: real
  c_nu0 :: real
  c_mu0 :: vec
  c_W0 :: mat
  c_alpha :: real
  c_beta :: real
  c_burn_iter :: int
  c_gibbs_iter :: int

definition pos_train_of :: "tensor \<Rightarrow> (nat \<times> nat \<times> nat) list" where
  "pos_train_of sparse_tensor = np_where3 (map (map (map (\<lambda>y. y \<noteq> 0))) sparse_tensor)"

definition pos_test_of :: "tensor \<Rightarrow> tensor \<Rightarrow> (nat \<times> nat \<times> nat) list" where
  "pos_test_of dense_tensor sparse_tensor =
     np_where3 (map2 (map2 (map2 (\<lambda>d y. d \<noteq> 0 \<and> y = 0))) dense_tensor sparse_tensor)"

definition binary_tensor_of :: "tensor \<Rightarrow> tensor" where
  "binary_tensor_of sparse_tensor =
     (case shape3 sparse_tensor of (m, n, f) \<Rightarrow>
        fancy_assign (zeros3 m n f) (pos_train_of sparse_tensor) 1)"

definition bgcp_setup :: "tensor \<Rightarrow> tensor \<Rightarrow> mat list \<Rightarrow> int \<Rightarrow> int \<Rightarrow> error + bgcp_locals" where
  "bgcp_setup dense_tensor sparse_tensor factor burn_iter gibbs_iter =
     (case factor of
        [] \<Rightarrow> Inl IndexError
      | factor0 # _ \<Rightarrow>
          (let rank = ncols factor0
           in Inr \<lparr>c_dense_tensor = dense_tensor, c_sparse_tensor = sparse_tensor,
                   c_shape = shape3 sparse_tensor, c_rank = rank,
                   c_pos_train = pos_train_of sparse_tensor,
                   c_pos_test = pos_test_of dense_tensor sparse_tensor,
                   c_binary_tensor = binary_tensor_of sparse_tensor,
                   c_beta0 = 1, c_nu0 = real rank, c_mu0 = zeros1 rank, c_W0 = eye rank,
                   c_alpha = 1 / 1000000, c_beta = 1 / 1000000,
                   c_burn_iter = burn_iter, c_gibbs_iter = gibbs_iter\<rparr>))"

text \<open>
  The state of the loop: the list \<^verbatim>\<open>factor\<close> (whose matrices the sampler overwrites), the
  precision \<^verbatim>\<open>tau\<close>, the accumulators \<^verbatim>\<open>factor_plus\<close> and \<^verbatim>\<open>tensor_hat_plus\<close>, the random
  generator, what has been printed, and a log of the sampler calls made so far.  The log
  is not a variable of the program: it records, in program order, each call of
  \<open>sample_hyperparameter\<close>, \<open>sample_factor\<close>, \<open>cp_combine\<close> and \<open>sample_precision_tau\<close>
  with the arguments that vary (and, for the last, the value it returned), so that the
  order of the calls can be stated.
\<close>

datatype call =
    Hyper nat mat
  | Factor nat real "mat list" vec mat
  | Combine "mat list"
  | Precision tensor real

datatype report = Progress nat npfloat npfloat | Imputation npfloat npfloat

record 'g bgcp_state =
  s_factor :: "mat list"
  s_tau :: real
  s_factor_plus :: "mat list"
  s_tensor_hat_plus :: tensor
  s_gen :: 'g
  s_printed :: "report list"
  s_calls :: "call list"

definition init_state :: "bgcp_locals \<Rightarrow> mat list \<Rightarrow> 'g \<Rightarrow> 'g bgcp_state" where
  "init_state c factor g =
     (case c_shape c of (m, n, f) \<Rightarrow>
        \<lparr>s_factor = factor, s_tau = 1,
         s_factor_plus = map (\<lambda>d. zeros2 d (c_rank c)) [m, n, f],
         s_tensor_hat_plus = zeros3 m n f,
         s_gen = g, s_printed = [], s_calls = []\<rparr>)"

text \<open>
  The body of the loop over the modes:
  \<^verbatim>\<open>        for k in range(len(dim)):
            var_mu_hyper, var_Lambda_hyper = sample_hyperparameter(factor[k], mu0, beta0, W0, nu0)
            factor[k] = sample_factor(sparse_tensor, binary_tensor, tau, factor,
                                      var_mu_hyper, var_Lambda_hyper, k)\<close>
\<close>

definition mode_update :: "'g lib \<Rightarrow> bgcp_locals \<Rightarrow> 'g bgcp_state \<Rightarrow> nat \<Rightarrow> error + 'g bgcp_state" where
  "mode_update lib c st k =
     (if length (s_factor st) \<le> k then Inl IndexError
      else
        (case sample_hyperparameter lib (s_factor st ! k) (c_mu0 c) (c_beta0 c) (c_W0 c) (c_nu0 c)
                (s_gen st) of
           ((var_mu_hyper, var_Lambda_hyper), g1) \<Rightarrow>
             (case sample_factor lib (c_sparse_tensor c) (c_binary_tensor c) (s_tau st) (s_factor st)
                     var_mu_hyper var_Lambda_hyper k 0 g1 of
                Inl e \<Rightarrow> Inl e
              | Inr (factor_k, g2) \<Rightarrow>
                  Inr (st\<lparr>s_factor := (s_factor st)[k := factor_k], s_gen := g2,
                          s_calls := s_calls st @
                            [Hyper k (s_factor st ! k),
                             Factor k (s_tau st) (s_factor st) var_mu_hyper var_Lambda_hyper]\<rparr>))))"

text \<open>
  The sampling part of one iteration: the loop over the modes, then
  \<^verbatim>\<open>        tensor_hat = cp_combine(factor)
        tau = sample_precision_tau(sparse_tensor, tensor_hat, pos_train, alpha, beta)\<close>
  It returns the new state and \<^verbatim>\<open>tensor_hat\<close>.
\<close>

definition sweep :: "'g lib \<Rightarrow> bgcp_locals \<Rightarrow> 'g bgcp_state \<Rightarrow> error + 'g bgcp_state \<times> tensor" where
  "sweep lib c st =
     (case fold_err (mode_update lib c) st [0..<3] of
        Inl e \<Rightarrow> Inl e
      | Inr st1 \<Rightarrow>
          (case cp_combine (s_factor st1) of
             Inl e \<Rightarrow> Inl e
           | Inr tensor_hat \<Rightarrow>
               (case sample_precision_tau lib (c_sparse_tensor c) tensor_hat (c_pos_train c)
                       (c_alpha c) (c_beta c) (s_gen st1) of
                  Inl e \<Rightarrow> Inl e
                | Inr (tau', g') \<Rightarrow>
                    Inr (st1\<lparr>s_tau := tau', s_gen := g',
                             s_calls := s_calls st1 @
                               [Combine (s_factor st1), Precision tensor_hat tau']\<rparr>,
                         tensor_hat))))"

text \<open>
  The two metrics that \<open>BGCP\<close> prints, on the test positions:
  \<^verbatim>\<open>compute_mape(dense_tensor[pos_test], tensor_hat[pos_test])\<close> and
  \<^verbatim>\<open>compute_rmse(dense_tensor[pos_test], tensor_hat[pos_test])\<close>.
\<close>

definition test_metrics :: "bgcp_locals \<Rightarrow> tensor \<Rightarrow> error + npfloat \<times> npfloat" where
  "test_metrics c tensor_hat =
     (case fancy_index (c_dense_tensor c) (c_pos_test c) of
        Inl e \<Rightarrow> Inl e
      | Inr var \<Rightarrow>
          (case fancy_index tensor_hat (c_pos_test c) of
             Inl e \<Rightarrow> Inl e
           | Inr var_hat \<Rightarrow> Inr (compute_mape var var_hat, compute_rmse var var_hat)))"

text \<open>
  The rest of the body of \<^verbatim>\<open>for it in range(burn_iter + gibbs_iter)\<close>:
  \<^verbatim>\<open>        if it + 1 > burn_iter:
            factor_plus = [factor_plus[k] + factor[k] for k in range(len(dim))]
            tensor_hat_plus += tensor_hat
        if (it + 1) % 5 == 0 and it < burn_iter:
            print('Iter: {}'.format(it + 1))
            print('MAPE: {:.6}'.format(compute_mape(dense_tensor[pos_test], tensor_hat[pos_test])))
            print('RMSE: {:.6}'.format(compute_rmse(dense_tensor[pos_test], tensor_hat[pos_test])))
            print()\<close>
\<close>

definition accumulate :: "bgcp_locals \<Rightarrow> nat \<Rightarrow> 'g bgcp_state \<Rightarrow> tensor \<Rightarrow> 'g bgcp_state" where
  "accumulate c it st tensor_hat =
     (if int it + 1 > c_burn_iter c then
        st\<lparr>s_factor_plus := map (\<lambda>k. mat_add (s_factor_plus st ! k) (s_factor st ! k)) [0..<3],
           s_tensor_hat_plus := tensor_add (s_tensor_hat_plus st) tensor_hat\<rparr>
      else st)"

definition iteration :: "'g lib \<Rightarrow> bgcp_locals \<Rightarrow> 'g bgcp_state \<Rightarrow> nat \<Rightarrow> error + 'g bgcp_state" where
  "iteration lib c st it =
     (case sweep lib c st of
        Inl e \<Rightarrow> Inl e
      | Inr (st1, tensor_hat) \<Rightarrow>
          (let st2 = accumulate c it st1 tensor_hat
           in if (it + 1) mod 5 = 0 \<and> int it < c_burn_iter c then
                (case test_metrics c tensor_hat of
                   Inl e \<Rightarrow> Inl e
                 | Inr (mape, rmse) \<Rightarrow>
                     Inr (st2\<lparr>s_printed := s_printed st2 @ [Progress (it + 1) mape rmse]\<rparr>))
              else Inr st2))"

text \<open>The state after the first \<open>n\<close> iterations of the loop.\<close>

definition run_iterations :: "'g lib \<Rightarrow> bgcp_locals \<Rightarrow> mat list \<Rightarrow> 'g \<Rightarrow> nat \<Rightarrow> error + 'g bgcp_state" where
  "run_iterations lib c factor g n = fold_err (iteration lib c) (init_state c factor g) [0..<n]"

text \<open>
  \<^verbatim>\<open>def BGCP(dense_tensor, sparse_tensor, factor, burn_iter, gibbs_iter):\<close>
  After the loop:
  \<^verbatim>\<open>    factor = [i / gibbs_iter for i in factor_plus]
    tensor_hat = tensor_hat_plus / gibbs_iter
    print('Imputation MAPE: {:.6}'.format(compute_mape(dense_tensor[pos_test], tensor_hat[pos_test])))
    print('Imputation RMSE: {:.6}'.format(compute_rmse(dense_tensor[pos_test], tensor_hat[pos_test])))
    print()

    return tensor_hat, factor\<close>
  The model returns the pair and the list of what was printed.  With \<^verbatim>\<open>gibbs_iter = 0\<close>
  numpy's quotients are \<^verbatim>\<open>nan\<close>; the model covers \<^verbatim>\<open>gibbs_iter\<close> other than zero.
\<close>

definition BGCP ::
  "'g lib \<Rightarrow> tensor \<Rightarrow> tensor \<Rightarrow> mat list \<Rightarrow> int \<Rightarrow> int \<Rightarrow> 'g
     \<Rightarrow> error + (tensor \<times> mat list) \<times> report list" where
  "BGCP lib dense_tensor sparse_tensor factor burn_iter gibbs_iter g =
     (case bgcp_setup dense_tensor sparse_tensor factor burn_iter gibbs_iter of
        Inl e \<Rightarrow> Inl e
      | Inr c \<Rightarrow>
          (case run_iterations lib c factor g (nat (burn_iter + gibbs_iter)) of
             Inl e \<Rightarrow> Inl e
           | Inr st \<Rightarrow>
               (let factor' = map (\<lambda>a. mat_div a (real_of_int gibbs_iter)) (s_factor_plus st);
                    tensor_hat = tensor_div (s_tensor_hat_plus st) (real_of_int gibbs_iter)
                in case test_metrics c tensor_hat of
                     Inl e \<Rightarrow> Inl e
                   | Inr (mape, rmse) \<Rightarrow>
                       Inr ((tensor_hat, factor'), s_printed st @ [Imputation mape rmse]))))"

text \<open>
  The factor matrices after the first \<open>s\<close> sweeps and their reconstruction, for a run
  whose first \<open>s\<close> sweeps raise nothing; the arithmetic mean of a list of matrices with
  \<open>d\<close> rows of length \<open>r\<close>, and of a list of tensors of one shape.
\<close>

definition factor_sample :: "'g lib \<Rightarrow> bgcp_locals \<Rightarrow> mat list \<Rightarrow> 'g \<Rightarrow> nat \<Rightarrow> mat list" where
  "factor_sample lib c factor g s =
     (case run_iterations lib c factor g s of Inl e \<Rightarrow> [] | Inr st \<Rightarrow> s_factor st)"

definition reconstruction :: "'g lib \<Rightarrow> bgcp_locals \<Rightarrow> mat list \<Rightarrow> 'g \<Rightarrow> nat \<Rightarrow> tensor" where
  "reconstruction lib c factor g s =
     (case cp_combine (factor_sample lib c factor g s) of Inl e \<Rightarrow> [] | Inr t \<Rightarrow> t)"

definition mat_mean :: "nat \<Rightarrow> nat \<Rightarrow> mat list \<Rightarrow> mat" where
  "mat_mean d r ms = mat_div (foldl mat_add (zeros2 d r) ms) (real (length ms))"

definition tensor_mean :: "nat \<times> nat \<times> nat \<Rightarrow> tensor list \<Rightarrow> tensor" where
  "tensor_mean shape ts =
     (case shape of (m, n, f) \<Rightarrow> tensor_div (foldl tensor_add (zeros3 m n f) ts) (real (length ts)))"


text \<open>
  A library for running the model on small inputs: the inverse of a \<open>1 \<times> 1\<close> and of a
  \<open>2 \<times> 2\<close> matrix, and draws that return the mean of the Gaussian, the scale matrix of the
  Wishart distribution and the product of shape and scale of the Gamma distribution.  Its
  generator state counts the draws.
\<close>

fun inv_small :: "mat \<Rightarrow> mat" where
  "inv_small [[a]] = [[1 / a]]"
| "inv_small [[a, b], [c, d]] =
     [[d / (a * d - b * c), - b / (a * d - b * c)], [- c / (a * d - b * c), a / (a * d - b * c)]]"
| "inv_small m = m"

definition test_lib :: "nat lib" where
  "test_lib = \<lparr>linalg_inv = inv_small,
               mvnrnd = (\<lambda>mean cov g. (mean, Suc g)),
               wishart_rvs = (\<lambda>df scale g. (scale, Suc g)),
               random_gamma = (\<lambda>shape scale g. (shape * scale, Suc g))\<rparr>"

section \<open>The posterior parameters as the specification states them\<close>

text \<open>
  Vectors and matrices given entry by entry: \<open>grid1 n f\<close> has the entries \<open>f 0, \<dots>, f (n - 1)\<close>
  and \<open>grid2 p q f\<close> has the entry \<open>f a b\<close> in row \<open>a < p\<close> and column \<open>b < q\<close>.
\<close>

definition grid1 :: "nat \<Rightarrow> (nat \<Rightarrow> 'a) \<Rightarrow> 'a list" where
  "grid1 n f = map f [0..<n]"

definition grid2 :: "nat \<Rightarrow> nat \<Rightarrow> (nat \<Rightarrow> nat \<Rightarrow> 'a) \<Rightarrow> 'a list list" where
  "grid2 p q f = map (\<lambda>a. map (\<lambda>b. f a b) [0..<q]) [0..<p]"





text \<open>
  The Gaussian posterior of row \<open>i\<close> of factor matrix \<open>k\<close>.  For a mode \<open>k\<close> the two other
  modes are \<open>other_modes k\<close>, the lower one first; \<open>mode_entry t k i a b\<close> is the entry of
  \<open>t\<close> with index \<open>i\<close> along mode \<open>k\<close> and indices \<open>a\<close>, \<open>b\<close> along the two others;
  \<open>observed_pairs\<close> are the coordinates \<open>(a, b)\<close> paired with \<open>i\<close> at which the sparse
  tensor has an entry (one that is not the zero sentinel); \<open>kr_row factor k a b\<close> is the
  row of the Khatri-Rao product of the two other factor matrices that belongs to
  \<open>(a, b)\<close>.  Then \<open>\<Lambda>\<^sub>i\<^sup>* = \<tau> \<Sum> c c\<^sup>T + \<Lambda>\<close> and the mean is \<open>(\<Lambda>\<^sub>i\<^sup>*)\<^sup>-\<^sup>1 (\<tau> \<Sum> y c + \<Lambda> \<mu>)\<close>, both
  sums over the observed pairs, with \<open>\<Lambda>\<^sub>i\<^sup>*\<close> replaced by \<open>(\<Lambda>\<^sub>i\<^sup>* + (\<Lambda>\<^sub>i\<^sup>*)\<^sup>T) / 2\<close> before it is
  inverted.  \<open>gaussian_rows\<close> draws the rows \<open>0, \<dots>, d - 1\<close> in this order, row \<open>i\<close> from the
  Gaussian with the mean and covariance \<open>params i\<close>.
\<close>

definition other_modes :: "nat \<Rightarrow> nat \<times> nat" where
  "other_modes k = (if k = 0 then (1, 2) else if k = 1 then (0, 2) else (0, 1))"

definition mode_entry :: "tensor \<Rightarrow> nat \<Rightarrow> nat \<Rightarrow> nat \<Rightarrow> nat \<Rightarrow> real" where
  "mode_entry t k i a b =
     (if k = 0 then t ! i ! a ! b else if k = 1 then t ! a ! i ! b else t ! a ! b ! i)"

definition observed_pairs :: "tensor \<Rightarrow> nat \<Rightarrow> nat \<Rightarrow> (nat \<times> nat) set" where
  "observed_pairs sparse_tensor k i =
     (case shape3 sparse_tensor of (m, n, f) \<Rightarrow>
        (case other_modes k of (lo, hi) \<Rightarrow>
           {(a, b). a < [m, n, f] ! lo \<and> b < [m, n, f] ! hi \<and> mode_entry sparse_tensor k i a b \<noteq> 0}))"

definition kr_row :: "mat list \<Rightarrow> nat \<Rightarrow> nat \<Rightarrow> nat \<Rightarrow> vec" where
  "kr_row factor k a b =
     (case other_modes k of (lo, hi) \<Rightarrow>
        kr_prod (factor ! hi) (factor ! lo) ! (b * length (factor ! lo) + a))"

definition posterior_precision :: "real \<Rightarrow> tensor \<Rightarrow> mat list \<Rightarrow> mat \<Rightarrow> nat \<Rightarrow> nat \<Rightarrow> mat" where
  "posterior_precision tau sparse_tensor factor Lambda_hyper k i =
     (let r = ncols (factor ! k)
      in grid2 r r (\<lambda>p q.
           tau * (\<Sum>(a, b)\<in>observed_pairs sparse_tensor k i.
                    kr_row factor k a b ! p * kr_row factor k a b ! q)
           + Lambda_hyper ! p ! q))"

definition posterior_rhs :: "real \<Rightarrow> tensor \<Rightarrow> mat list \<Rightarrow> vec \<Rightarrow> mat \<Rightarrow> nat \<Rightarrow> nat \<Rightarrow> vec" where
  "posterior_rhs tau sparse_tensor factor mu_hyper Lambda_hyper k i =
     (let r = ncols (factor ! k)
      in grid1 r (\<lambda>p.
           tau * (\<Sum>(a, b)\<in>observed_pairs sparse_tensor k i.
                    mode_entry sparse_tensor k i a b * kr_row factor k a b ! p)
           + (\<Sum>q<r. Lambda_hyper ! p ! q * mu_hyper ! q)))"

definition symmetrized :: "mat \<Rightarrow> mat" where
  "symmetrized a = grid2 (length a) (length a) (\<lambda>p q. (a ! p ! q + a ! q ! p) / 2)"

definition posterior_params ::
  "'g lib \<Rightarrow> real \<Rightarrow> tensor \<Rightarrow> mat list \<Rightarrow> vec \<Rightarrow> mat \<Rightarrow> nat \<Rightarrow> nat \<Rightarrow> vec \<times> mat" where
  "posterior_params lib tau sparse_tensor factor mu_hyper Lambda_hyper k i =
     (let covariance = linalg_inv lib
            (symmetrized (posterior_precision tau sparse_tensor factor Lambda_hyper k i))
      in (matvec covariance (posterior_rhs tau sparse_tensor factor mu_hyper Lambda_hyper k i),
          covariance))"

definition gaussian_rows :: "'g lib \<Rightarrow> (nat \<Rightarrow> vec \<times> mat) \<Rightarrow> nat \<Rightarrow> mat \<times> 'g \<Rightarrow> mat \<times> 'g" where
  "gaussian_rows lib params d s =
     foldl (\<lambda>s i. case s of (factor_k, g) \<Rightarrow>
               (case mvnrnd lib (fst (params i)) (snd (params i)) g of
                  (row, g') \<Rightarrow> (factor_k[i := row], g')))
       s [0..<d]"

text \<open>
  The Gamma posterior of the precision over a train index set \<open>\<Omega>\<close>: shape
  \<open>\<alpha>0 + 0.5 |\<Omega>|\<close> and rate \<open>\<beta>0 + 0.5 \<Sum> (observed - reconstructed)\<^sup>2\<close>.
\<close>

definition tau_posterior_shape :: "real \<Rightarrow> (nat \<times> nat \<times> nat) set \<Rightarrow> real" where
  "tau_posterior_shape alpha0 \<Omega> = alpha0 + 0.5 * real (card \<Omega>)"

definition tau_posterior_rate :: "real \<Rightarrow> tensor \<Rightarrow> tensor \<Rightarrow> (nat \<times> nat \<times> nat) set \<Rightarrow> real" where
  "tau_posterior_rate beta0 observed reconstructed \<Omega> =
     beta0 + 0.5 * (\<Sum>(i, j, t)\<in>\<Omega>. (observed ! i ! j ! t - reconstructed ! i ! j ! t) ^ 2)"

text \<open>
  A second library, whose Gaussian draw is the vector of ones and whose Gamma draw is \<open>2\<close>
  whatever their parameters are.
\<close>

definition unit_lib :: "nat lib" where
  "unit_lib = \<lparr>linalg_inv = inv_small,
               mvnrnd = (\<lambda>mean cov g. (replicate (length mean) 1, Suc g)),
               wishart_rvs = (\<lambda>df scale g. (scale, Suc g)),
               random_gamma = (\<lambda>shape scale g. (2, Suc g))\<rparr>"

section \<open>The notebook's printed examples\<close>

lemma kr_prod_example:
  "kr_prod [[1, 2], [3, 4]] [[5, 6], [7, 8], [9, 10]]
     = [[5, 12], [7, 16], [9, 20], [15, 24], [21, 32], [27, 40]]"
  by (simp add: kr_prod_def einsum_ir_jr_ijr_def)

lemma cp_combine_example:
  "cp_combine [[[1, 2], [3, 4]], [[1, 3], [2, 4], [5, 6]], [[1, 5], [2, 6], [3, 7], [4, 8]]]
     = Inr [[[31, 38, 45, 52], [42, 52, 62, 72], [65, 82, 99, 116]],
            [[63, 78, 93, 108], [86, 108, 130, 152], [135, 174, 213, 252]]]"
  by simp

lemma ten2mat_example_mode0:
  "ten2mat [[[1, 2, 3, 4], [3, 4, 5, 6]], [[5, 6, 7, 8], [7, 8, 9, 10]],
            [[9, 10, 11, 12], [11, 12, 13, 14 :: int]]] 0
     = Inr [[1, 3, 2, 4, 3, 5, 4, 6], [5, 7, 6, 8, 7, 9, 8, 10], [9, 11, 10, 12, 11, 13, 12, 14]]"
  by (simp add: ten2mat_def moveaxis0_def reshape_F_def shape3_def ncols_def upt_rec)

lemma ten2mat_example_mode1:
  "ten2mat [[[1, 2, 3, 4], [3, 4, 5, 6]], [[5, 6, 7, 8], [7, 8, 9, 10]],
            [[9, 10, 11, 12], [11, 12, 13, 14 :: int]]] 1
     = Inr [[1, 5, 9, 2, 6, 10, 3, 7, 11, 4, 8, 12], [3, 7, 11, 4, 8, 12, 5, 9, 13, 6, 10, 14]]"
  by (simp add: ten2mat_def moveaxis0_def reshape_F_def shape3_def ncols_def upt_rec)

lemma ten2mat_example_mode2:
  "ten2mat [[[1, 2, 3, 4], [3, 4, 5, 6]], [[5, 6, 7, 8], [7, 8, 9, 10]],
            [[9, 10, 11, 12], [11, 12, 13, 14 :: int]]] 2
     = Inr [[1, 5, 9, 3, 7, 11], [2, 6, 10, 4, 8, 12], [3, 7, 11, 5, 9, 13], [4, 8, 12, 6, 10, 14]]"
  by (simp add: ten2mat_def moveaxis0_def reshape_F_def shape3_def ncols_def upt_rec)

section \<open>Unfolding and folding\<close>

lemma length_concat_grid:
  "length (concat (map (\<lambda>c. map (\<lambda>b. g b c) [0..<p]) [0..<q])) = p * q"
  by (induction q) simp_all

lemma nth_concat_grid:
  "b < p \<Longrightarrow> c < q \<Longrightarrow>
     concat (map (\<lambda>c. map (\<lambda>b. g b c) [0..<p]) [0..<q]) ! (b + p * c) = g b c"
proof (induction q)
  case 0
  then show ?case by simp
next
  case (Suc q)
  show ?case
  proof (cases "c < q")
    case True
    then have "b + p * c < p * q"
      using Suc.prems(1)
      by (metis add.commute mult_Suc_right nat_add_left_cancel_less less_le_trans Suc_leI mult_le_mono2 add_less_cancel_left)
    with True Suc show ?thesis
      by (simp add: nth_append length_concat_grid)
  next
    case False
    with Suc.prems have "c = q" by simp
    with Suc.prems show ?thesis
      by (simp add: nth_append length_concat_grid)
  qed
qed

lemma is_mat_nth: "is_mat m n a \<Longrightarrow> i < m \<Longrightarrow> length (a ! i) = n"
  by (simp add: is_mat_def list_all_length)

lemma is_mat_length: "is_mat m n a \<Longrightarrow> length a = m"
  by (simp add: is_mat_def)

lemma is_mat_ncols: "is_mat m n a \<Longrightarrow> 0 < m \<Longrightarrow> ncols a = n"
  by (cases a) (auto simp: is_mat_def ncols_def)

lemma is_tensor_nth: "is_tensor m n f t \<Longrightarrow> i < m \<Longrightarrow> is_mat n f (t ! i)"
  by (simp add: is_tensor_def list_all_length)

lemma is_tensor_length: "is_tensor m n f t \<Longrightarrow> length t = m"
  by (simp add: is_tensor_def)

lemma is_tensor_shape3:
  "is_tensor m n f t \<Longrightarrow> 0 < m \<Longrightarrow> 0 < n \<Longrightarrow> shape3 t = (m, n, f)"
  by (cases t) (auto simp: is_tensor_def shape3_def ncols_def is_mat_def split: list.splits)


lemma unflatten_F_grid:
  "unflatten_F p q (concat (map (\<lambda>c. map (\<lambda>b. g b c) [0..<p]) [0..<q]))
     = map (\<lambda>b. map (\<lambda>c. g b c) [0..<q]) [0..<p]"
  by (simp add: unflatten_F_def nth_concat_grid)

lemma mat_grid: "is_mat p q s \<Longrightarrow> map (\<lambda>b. map (\<lambda>c. s ! b ! c) [0..<q]) [0..<p] = s"
  by (rule nth_equalityI) (auto simp: is_mat_def list_all_length intro!: nth_equalityI)

lemma tensor_grid:
  "is_tensor m n f t \<Longrightarrow>
     map (\<lambda>i. map (\<lambda>j. map (\<lambda>k. t ! i ! j ! k) [0..<f]) [0..<n]) [0..<m] = t"
  by (rule nth_equalityI)
     (auto simp: is_tensor_def is_mat_def list_all_length intro!: nth_equalityI)



lemma ten2mat_mode0:
  assumes "is_tensor m n f t" "0 < m" "0 < n"
  shows "ten2mat t 0 =
    Inr (map (\<lambda>i. concat (map (\<lambda>k. map (\<lambda>j. t ! i ! j ! k) [0..<n]) [0..<f])) [0..<m])"
proof -
  have "reshape_F t = map (\<lambda>i. concat (map (\<lambda>k. map (\<lambda>j. t ! i ! j ! k) [0..<n]) [0..<f])) [0..<m]"
  proof (rule nth_equalityI)
    show "length (reshape_F t) = length (map (\<lambda>i. concat (map (\<lambda>k. map (\<lambda>j. t ! i ! j ! k) [0..<n]) [0..<f])) [0..<m])"
      using assms by (simp add: reshape_F_def is_tensor_length)
  next
    fix i assume "i < length (reshape_F t)"
    then have i: "i < m" using assms by (simp add: reshape_F_def is_tensor_length)
    have s: "is_mat n f (t ! i)" by (rule is_tensor_nth[OF assms(1) i])
    show "reshape_F t ! i = map (\<lambda>i. concat (map (\<lambda>k. map (\<lambda>j. t ! i ! j ! k) [0..<n]) [0..<f])) [0..<m] ! i"
      using i assms(3) by (simp add: reshape_F_def is_tensor_length[OF assms(1)]
          is_mat_length[OF s] is_mat_ncols[OF s])
  qed
  then show ?thesis
    by (simp add: ten2mat_def moveaxis0_def is_tensor_shape3[OF assms])
qed


lemma ncols_map_upt: "0 < m \<Longrightarrow> ncols (map g [0..<m]) = length (g 0)"
  by (simp add: ncols_def upt_conv_Cons)

lemma list_grid: "length xs = n \<Longrightarrow> map (\<lambda>k. xs ! k) [0..<n] = xs"
  by (auto intro: nth_equalityI)

lemma reshape_F_grid:
  assumes "0 < p"
  shows "reshape_F (map (\<lambda>a. map (\<lambda>b. map (\<lambda>c. g a b c) [0..<q]) [0..<p]) [0..<d])
     = map (\<lambda>a. concat (map (\<lambda>c. map (\<lambda>b. g a b c) [0..<p]) [0..<q])) [0..<d]"
proof -
  have "concat (map (\<lambda>c. map (\<lambda>b. (map (\<lambda>b. map (\<lambda>c. g a b c) [0..<q]) [0..<p]) ! b ! c) [0..<p]) [0..<q])
      = concat (map (\<lambda>c. map (\<lambda>b. g a b c) [0..<p]) [0..<q])" for a
  proof -
    have "map (\<lambda>b. (map (\<lambda>b. map (\<lambda>c. g a b c) [0..<q]) [0..<p]) ! b ! c) [0..<p]
        = map (\<lambda>b. g a b c) [0..<p]" if "c < q" for c
      using that by (intro map_cong) simp_all
    then have "map (\<lambda>c. map (\<lambda>b. (map (\<lambda>b. map (\<lambda>c. g a b c) [0..<q]) [0..<p]) ! b ! c) [0..<p]) [0..<q]
        = map (\<lambda>c. map (\<lambda>b. g a b c) [0..<p]) [0..<q]"
      by (intro map_cong) simp_all
    then show ?thesis by (rule arg_cong)
  qed
  then show ?thesis
    using assms by (simp add: reshape_F_def ncols_map_upt)
qed

lemma ten2mat_mode1:
  assumes "is_tensor m n f t" "0 < m" "0 < n"
  shows "ten2mat t 1 =
    Inr (map (\<lambda>j. concat (map (\<lambda>k. map (\<lambda>i. t ! i ! j ! k) [0..<m]) [0..<f])) [0..<n])"
proof -
  have "map (\<lambda>i. t ! i ! j) [0..<m] = map (\<lambda>i. map (\<lambda>k. t ! i ! j ! k) [0..<f]) [0..<m]"
    if "j < n" for j
  proof (intro map_cong refl)
    fix i assume "i \<in> set [0..<m]"
    then have "length (t ! i ! j) = f"
      using is_mat_nth[OF is_tensor_nth[OF assms(1)] that] by simp
    then show "t ! i ! j = map (\<lambda>k. t ! i ! j ! k) [0..<f]"
      by (simp add: list_grid)
  qed
  then have mv: "map (\<lambda>j. map (\<lambda>i. t ! i ! j) [0..<m]) [0..<n]
      = map (\<lambda>j. map (\<lambda>i. map (\<lambda>k. t ! i ! j ! k) [0..<f]) [0..<m]) [0..<n]"
    by (intro map_cong) simp_all
  have r: "reshape_F (map (\<lambda>j. map (\<lambda>i. t ! i ! j) [0..<m]) [0..<n])
      = map (\<lambda>j. concat (map (\<lambda>k. map (\<lambda>i. t ! i ! j ! k) [0..<m]) [0..<f])) [0..<n]"
    unfolding mv by (rule reshape_F_grid[OF assms(2)])
  show ?thesis
    by (simp add: ten2mat_def moveaxis0_def is_tensor_shape3[OF assms] r)
qed

lemma ten2mat_mode2:
  assumes "is_tensor m n f t" "0 < m" "0 < n"
  shows "ten2mat t 2 =
    Inr (map (\<lambda>k. concat (map (\<lambda>j. map (\<lambda>i. t ! i ! j ! k) [0..<m]) [0..<n])) [0..<f])"
  by (simp add: ten2mat_def moveaxis0_def is_tensor_shape3[OF assms]
        reshape_F_grid[OF assms(2)])

text \<open>
  C7: for a three-way tensor with positive dimensions and every mode \<open>k\<close> in \<open>{0, 1, 2}\<close>,
  \<open>ten2mat\<close> returns a matrix, and folding that matrix back with the same ordering
  convention (\<open>mat2ten\<close>, with the tensor's shape) gives the original tensor.
\<close>

theorem ten2mat_round_trip:
  assumes "is_tensor m n f t" "0 < m" "0 < n" "0 < f" "k < 3"
  shows "\<exists>a. ten2mat t k = Inr a \<and> mat2ten a (shape3 t) k = Inr t"
proof -
  note sh = is_tensor_shape3[OF assms(1-3)]
  note tg = tensor_grid[OF assms(1)]
  from assms(5) consider "k = 0" | "k = 1" | "k = 2" by linarith
  then show ?thesis
  proof cases
    case 1
    have "map (unflatten_F n f)
        (map (\<lambda>i. concat (map (\<lambda>k. map (\<lambda>j. t ! i ! j ! k) [0..<n]) [0..<f])) [0..<m]) = t"
      by (simp add: unflatten_F_grid o_def tg)
    then show ?thesis
      unfolding 1 ten2mat_mode0[OF assms(1-3)] by (simp add: mat2ten_def sh)
  next
    case 2
    let ?x = "map (unflatten_F m f)
        (map (\<lambda>j. concat (map (\<lambda>k. map (\<lambda>i. t ! i ! j ! k) [0..<m]) [0..<f])) [0..<n])"
    have x: "?x = map (\<lambda>j. map (\<lambda>i. map (\<lambda>k. t ! i ! j ! k) [0..<f]) [0..<m]) [0..<n]"
      by (simp add: unflatten_F_grid o_def)
    have "map (\<lambda>j. ?x ! j ! i) [0..<n] = map (\<lambda>j. map (\<lambda>k. t ! i ! j ! k) [0..<f]) [0..<n]"
      if "i < m" for i
      unfolding x using that by (intro map_cong) simp_all
    then have "map (\<lambda>i. map (\<lambda>j. ?x ! j ! i) [0..<n]) [0..<m] 
        = map (\<lambda>i. map (\<lambda>j. map (\<lambda>k. t ! i ! j ! k) [0..<f]) [0..<n]) [0..<m]"
      by (intro map_cong) simp_all
    then show ?thesis
      unfolding 2 ten2mat_mode1[OF assms(1-3)] by (simp add: mat2ten_def sh tg Let_def)
  next
    case 3
    let ?x = "map (unflatten_F m n)
        (map (\<lambda>k. concat (map (\<lambda>j. map (\<lambda>i. t ! i ! j ! k) [0..<m]) [0..<n])) [0..<f])"
    have x: "?x = map (\<lambda>k. map (\<lambda>i. map (\<lambda>j. t ! i ! j ! k) [0..<n]) [0..<m]) [0..<f]"
      by (simp add: unflatten_F_grid o_def)
    have "map (\<lambda>k. ?x ! k ! i ! j) [0..<f] = map (\<lambda>k. t ! i ! j ! k) [0..<f]"
      if "i < m" "j < n" for i j
      unfolding x using that by (intro map_cong) simp_all
    then have "map (\<lambda>j. map (\<lambda>k. ?x ! k ! i ! j) [0..<f]) [0..<n] 
        = map (\<lambda>j. map (\<lambda>k. t ! i ! j ! k) [0..<f]) [0..<n]" if "i < m" for i
      using that by (intro map_cong) simp_all
    then have "map (\<lambda>i. map (\<lambda>j. map (\<lambda>k. ?x ! k ! i ! j) [0..<f]) [0..<n]) [0..<m] 
        = map (\<lambda>i. map (\<lambda>j. map (\<lambda>k. t ! i ! j ! k) [0..<f]) [0..<n]) [0..<m]"
      by (intro map_cong) simp_all
    then show ?thesis
      unfolding 3 ten2mat_mode2[OF assms(1-3)] by (simp add: mat2ten_def sh tg Let_def)
  qed
qed

theorem ten2mat_round_trip_witness:
  "is_tensor 3 2 4 [[[1, 2, 3, 4], [3, 4, 5, 6]], [[5, 6, 7, 8], [7, 8, 9, 10]],
            [[9, 10, 11, 12], [11, 12, 13, 14 :: real]]] \<and> (2::nat) < 3 \<and>
   (\<exists>a. ten2mat [[[1, 2, 3, 4], [3, 4, 5, 6]], [[5, 6, 7, 8], [7, 8, 9, 10]],
            [[9, 10, 11, 12], [11, 12, 13, 14 :: real]]] 2 = Inr a \<and>
        mat2ten a (3, 2, 4) 2 = Inr [[[1, 2, 3, 4], [3, 4, 5, 6]], [[5, 6, 7, 8], [7, 8, 9, 10]],
            [[9, 10, 11, 12], [11, 12, 13, 14 :: real]]])"
proof -
  let ?t = "[[[1, 2, 3, 4], [3, 4, 5, 6]], [[5, 6, 7, 8], [7, 8, 9, 10]],
            [[9, 10, 11, 12], [11, 12, 13, 14 :: real]]]"
  have h: "is_tensor 3 2 4 ?t" by (simp add: is_tensor_def is_mat_def)
  have s: "shape3 ?t = (3, 2, 4)" by (simp add: shape3_def ncols_def)
  show ?thesis
    using h ten2mat_round_trip[OF h, of 2] by (simp add: s)
qed

section \<open>The precision draw\<close>

lemma tensor_sub_nth:
  assumes "in_range3 s (i, j, t)" "in_range3 h (i, j, t)"
  shows "in_range3 (tensor_sub s h) (i, j, t)"
    and "tensor_sub s h ! i ! j ! t = s ! i ! j ! t - h ! i ! j ! t"
  using assms by (simp_all add: in_range3_def tensor_sub_def vec_sub_def)

lemma fancy_index_tensor_sub:
  assumes "list_all (in_range3 s) pos" "list_all (in_range3 h) pos"
  shows "fancy_index (tensor_sub s h) pos
       = Inr (map (\<lambda>(i, j, t). s ! i ! j ! t - h ! i ! j ! t) pos)"
proof -
  have r: "list_all (in_range3 (tensor_sub s h)) pos"
    using assms by (auto simp: list_all_iff intro: tensor_sub_nth(1))
  have "map (\<lambda>(i, j, t). tensor_sub s h ! i ! j ! t) pos
      = map (\<lambda>(i, j, t). s ! i ! j ! t - h ! i ! j ! t) pos"
    using assms by (intro map_cong refl) (auto simp: list_all_iff tensor_sub_nth(2))
  with r show ?thesis by (simp add: fancy_index_def)
qed

text \<open>
  C5: for a train index set given as a list of distinct positions inside both tensors,
  \<open>sample_precision_tau\<close> returns the draw of \<^verbatim>\<open>numpy.random.gamma\<close> with shape
  \<open>\<alpha>0 + 0.5 |train set|\<close> and with scale the reciprocal of the rate
  \<open>\<beta>0 + 0.5 \<Sum> (observed - reconstructed)\<^sup>2\<close> (the sum over the train set): a Gamma
  distribution in the rate parameterization.  The rate is assumed not to be zero.
\<close>

theorem sample_precision_tau_posterior:
  assumes "distinct pos_train"
    and "list_all (in_range3 sparse_tensor) pos_train"
    and "list_all (in_range3 tensor_hat) pos_train"
    and "tau_posterior_rate beta sparse_tensor tensor_hat (set pos_train) \<noteq> 0"
  shows "sample_precision_tau lib sparse_tensor tensor_hat pos_train alpha beta g =
     Inr (random_gamma lib (tau_posterior_shape alpha (set pos_train))
            (1 / tau_posterior_rate beta sparse_tensor tensor_hat (set pos_train)) g)"
proof -
  let ?res = "map (\<lambda>(i, j, t). sparse_tensor ! i ! j ! t - tensor_hat ! i ! j ! t) pos_train"
  have f1: "fancy_index sparse_tensor pos_train
      = Inr (map (\<lambda>(i, j, t). sparse_tensor ! i ! j ! t) pos_train)"
    using assms(2) by (simp add: fancy_index_def)
  have f2: "fancy_index (tensor_sub sparse_tensor tensor_hat) pos_train = Inr ?res"
    by (rule fancy_index_tensor_sub[OF assms(2,3)])
  have shape: "alpha + 0.5 * real (length (map (\<lambda>(i, j, t). sparse_tensor ! i ! j ! t) pos_train))
      = tau_posterior_shape alpha (set pos_train)"
    using assms(1) by (simp add: distinct_card tau_posterior_shape_def)
  have "sum_list (map (\<lambda>x. x ^ 2) ?res)
      = (\<Sum>p\<in>set pos_train. (case p of (i, j, t) \<Rightarrow> (sparse_tensor ! i ! j ! t - tensor_hat ! i ! j ! t) ^ 2))"
    using assms(1) by (simp add: sum_list_distinct_conv_sum_set o_def case_prod_unfold)
  then have rate: "beta + 0.5 * sum_list (map (\<lambda>x. x ^ 2) ?res)
      = tau_posterior_rate beta sparse_tensor tensor_hat (set pos_train)"
    by (simp only: tau_posterior_rate_def)
  show ?thesis
    unfolding sample_precision_tau_def f1 f2 by (simp only: sum.case Let_def shape rate)
qed

theorem sample_precision_tau_posterior_witness:
  "distinct [(0, 0, 0), (0, 1, 1 :: nat)] \<and>
   sample_precision_tau test_lib [[[1, 0], [0, 3]]] [[[2, 5], [7, 5]]] [(0, 0, 0), (0, 1, 1)] 1 2 0
     = Inr (4 / 9, 1)"
proof -
  let ?s = "[[[1, 0], [0, 3 :: real]]]" and ?h = "[[[2, 5], [7, 5 :: real]]]"
  let ?pos = "[(0, 0, 0), (0, 1, 1 :: nat)]"
  have d: "distinct ?pos" by simp
  have r1: "list_all (in_range3 ?s) ?pos" by (simp add: in_range3_def)
  have r2: "list_all (in_range3 ?h) ?pos" by (simp add: in_range3_def)
  have rate: "tau_posterior_rate 2 ?s ?h (set ?pos) = 9 / 2"
    by (simp add: tau_posterior_rate_def)
  have shape: "tau_posterior_shape 1 (set ?pos) = 2"
    by (simp add: tau_posterior_shape_def)
  have nz: "tau_posterior_rate 2 ?s ?h (set ?pos) \<noteq> 0" unfolding rate by simp
  show ?thesis
    using d sample_precision_tau_posterior[OF d r1 r2 nz, of test_lib 1 0]
    unfolding rate shape by (simp add: test_lib_def)
qed

section \<open>The hyperparameter draw\<close>

lemma length_grid1 [simp]: "length (grid1 n f) = n"
  by (simp add: grid1_def)

lemma nth_grid1 [simp]: "i < n \<Longrightarrow> grid1 n f ! i = f i"
  by (simp add: grid1_def)

lemma length_grid2 [simp]: "length (grid2 p q f) = p"
  by (simp add: grid2_def)

lemma nth_grid2 [simp]: "a < p \<Longrightarrow> grid2 p q f ! a = grid1 q (f a)"
  by (simp add: grid2_def grid1_def)

lemma grid1_cong: "(\<And>i. i < n \<Longrightarrow> f i = g i) \<Longrightarrow> grid1 n f = grid1 n g"
  by (simp add: grid1_def)

lemma grid2_cong: "(\<And>a b. a < p \<Longrightarrow> b < q \<Longrightarrow> f a b = g a b) \<Longrightarrow> grid2 p q f = grid2 p q g"
  by (simp add: grid2_def)

lemma vec_as_grid1: "length v = n \<Longrightarrow> v = grid1 n (\<lambda>i. v ! i)"
  by (simp add: grid1_def list_grid)

lemma mat_as_grid2: "is_mat p q a \<Longrightarrow> a = grid2 p q (\<lambda>i j. a ! i ! j)"
  by (simp add: grid2_def mat_grid)





lemma mat_add_grid2:
  "mat_add (grid2 p q f) (grid2 p q g) = grid2 p q (\<lambda>a b. f a b + g a b)"
  by (simp add: mat_add_def grid2_def map2_map_map vec_add_def)

lemma mat_scale_grid2: "mat_scale c (grid2 p q f) = grid2 p q (\<lambda>a b. c * f a b)"
  by (simp add: mat_scale_def grid2_def vec_scale_def)

lemma mat_div_grid2: "mat_div (grid2 p q f) c = grid2 p q (\<lambda>a b. f a b / c)"
  by (simp add: mat_div_def grid2_def vec_div_def)



lemma zeros1_grid1: "zeros1 n = grid1 n (\<lambda>a. 0)"
  by (simp add: zeros1_def grid1_def map_replicate_const)

lemma sum_list_map_nth: "sum_list (map f xs) = (\<Sum>i<length xs. f (xs ! i))"
  by (simp add: sum_list_sum_nth atLeast0LessThan)






section \<open>Index lists and the metrics on the test set\<close>

lemma set_np_where2:
  "set (np_where2 b) = {(i, j). i < length b \<and> j < length (b ! i) \<and> b ! i ! j}"
  by (auto simp: np_where2_def)

lemma set_np_where3:
  "set (np_where3 b)
     = {(i, j, k). i < length b \<and> j < length (b ! i) \<and> k < length (b ! i ! j) \<and> b ! i ! j ! k}"
  by (auto simp: np_where3_def set_np_where2)

lemma distinct_concat_map_upt:
  assumes "\<And>i. i < n \<Longrightarrow> distinct (g i)"
    and "\<And>i j. i < j \<Longrightarrow> j < n \<Longrightarrow> set (g i) \<inter> set (g j) = {}"
  shows "distinct (concat (map g [0..<n]))"
  using assms
proof (induction n)
  case 0
  then show ?case by simp
next
  case (Suc n)
  have "distinct (concat (map g [0..<n]))"
    using Suc.prems by (intro Suc.IH) auto
  moreover have "set (concat (map g [0..<n])) \<inter> set (g n) = {}"
    using Suc.prems(2)[of _ n] by fastforce
  ultimately show ?case
    using Suc.prems(1)[of n] by simp
qed

lemma distinct_np_where2: "distinct (np_where2 b)"
  unfolding np_where2_def
  by (rule distinct_concat_map_upt) (auto simp: distinct_map inj_on_def)

lemma distinct_np_where3: "distinct (np_where3 b)"
  unfolding np_where3_def
  by (rule distinct_concat_map_upt)
     (auto simp: distinct_map inj_on_def distinct_np_where2 intro!: prod_eqI)

lemma pos_test_of_iff:
  assumes "is_tensor m n f dense" "is_tensor m n f sparse"
  shows "(i, j, k) \<in> set (pos_test_of dense sparse)
     \<longleftrightarrow> i < m \<and> j < n \<and> k < f \<and> dense ! i ! j ! k \<noteq> 0 \<and> sparse ! i ! j ! k = 0"
proof -
  have l1: "length (dense ! i) = n" "length (sparse ! i) = n" if "i < m"
    using is_mat_length[OF is_tensor_nth[OF assms(1) that]]
      is_mat_length[OF is_tensor_nth[OF assms(2) that]] by simp_all
  have l2: "length (dense ! i ! j) = f" "length (sparse ! i ! j) = f" if "i < m" "j < n"
    using is_mat_nth[OF is_tensor_nth[OF assms(1) that(1)] that(2)]
      is_mat_nth[OF is_tensor_nth[OF assms(2) that(1)] that(2)] by simp_all
  show ?thesis
    using is_tensor_length[OF assms(1)] is_tensor_length[OF assms(2)]
    by (auto simp: pos_test_of_def set_np_where3 l1 l2)
qed

lemma pos_train_of_iff:
  assumes "is_tensor m n f sparse"
  shows "(i, j, k) \<in> set (pos_train_of sparse)
     \<longleftrightarrow> i < m \<and> j < n \<and> k < f \<and> sparse ! i ! j ! k \<noteq> 0"
proof -
  have l1: "length (sparse ! i) = n" if "i < m"
    using is_mat_length[OF is_tensor_nth[OF assms(1) that]] by simp_all
  have l2: "length (sparse ! i ! j) = f" if "i < m" "j < n"
    using is_mat_nth[OF is_tensor_nth[OF assms(1) that(1)] that(2)] by simp_all
  show ?thesis
    using is_tensor_length[OF assms(1)]
    by (auto simp: pos_train_of_def set_np_where3 l1 l2)
qed

lemma in_range3_tensor:
  "is_tensor m n f t \<Longrightarrow> in_range3 t (i, j, k) \<longleftrightarrow> i < m \<and> j < n \<and> k < f"
  using is_mat_length[OF is_tensor_nth, of m n f t i] is_mat_nth[OF is_tensor_nth, of m n f t i j]
  by (auto simp: in_range3_def is_tensor_length)


lemma bgcp_setup_fields:
  assumes "bgcp_setup dense sparse factor burn gibbs = Inr c"
  shows "c_dense_tensor c = dense" "c_sparse_tensor c = sparse"
    "c_pos_test c = pos_test_of dense sparse" "c_pos_train c = pos_train_of sparse"
    "c_binary_tensor c = binary_tensor_of sparse" "c_shape c = shape3 sparse"
    "c_burn_iter c = burn" "c_gibbs_iter c = gibbs"
    "c_alpha c = 1 / 1000000" "c_beta c = 1 / 1000000"
    "c_beta0 c = 1" "c_nu0 c = real (c_rank c)" "c_mu0 c = zeros1 (c_rank c)"
    "c_W0 c = eye (c_rank c)" "factor \<noteq> []" "c_rank c = ncols (hd factor)"
  using assms by (auto simp: bgcp_setup_def Let_def split: list.splits)

lemma fancy_index_pos_test:
  assumes "is_tensor m n f dense" "is_tensor m n f sparse"
  shows "fancy_index dense (pos_test_of dense sparse)
       = Inr (map (\<lambda>(i, j, k). dense ! i ! j ! k) (pos_test_of dense sparse))"
    and "0 \<notin> set (map (\<lambda>(i, j, k). dense ! i ! j ! k) (pos_test_of dense sparse))"
proof -
  have "list_all (in_range3 dense) (pos_test_of dense sparse)"
    by (auto simp: list_all_iff in_range3_tensor[OF assms(1)] pos_test_of_iff[OF assms])
  then show "fancy_index dense (pos_test_of dense sparse)
       = Inr (map (\<lambda>(i, j, k). dense ! i ! j ! k) (pos_test_of dense sparse))"
    by (simp add: fancy_index_def)
  show "0 \<notin> set (map (\<lambda>(i, j, k). dense ! i ! j ! k) (pos_test_of dense sparse))"
    by (auto simp: pos_test_of_iff[OF assms])
qed

lemma compute_mape_zero: "0 \<in> set var \<Longrightarrow> compute_mape var var_hat = NonFinite"
  by (auto simp: compute_mape_def list_ex_iff)

text \<open>
  C8 as stated fails.  \<open>compute_mape\<close> has no check of its first argument: with a
  ground-truth value that is exactly zero it returns a non-finite float as an ordinary
  value, here for the ground truth \<open>[0, 2]\<close> and the estimate \<open>[1, 2]\<close>.
\<close>

theorem compute_mape_zero_truth_counterexample:
  "compute_mape [0, 2] [1, 2] = NonFinite"
  by (simp add: compute_mape_def)

text \<open>
  C8, amended: \<open>compute_mape\<close> signals nothing; whenever a ground-truth value is zero it
  returns a non-finite float.  Under the construction of the test set in \<open>BGCP\<close>
  (positions where the reference array is not zero and the sparse array is zero, the two
  arrays having the same shape) the ground truth \<^verbatim>\<open>dense_tensor[pos_test]\<close> contains no
  zero, and every MAPE that \<open>BGCP\<close> reports is \<open>compute_mape\<close> of this ground truth and of
  the estimate at the same positions.
\<close>

theorem compute_mape_on_test_set:
  assumes "bgcp_setup dense_tensor sparse_tensor factor burn_iter gibbs_iter = Inr c"
    and "is_tensor m n f dense_tensor" "is_tensor m n f sparse_tensor"
  shows "(\<forall>var var_hat. 0 \<in> set var \<longrightarrow> compute_mape var var_hat = NonFinite) \<and>
    (\<exists>var. fancy_index (c_dense_tensor c) (c_pos_test c) = Inr var \<and> 0 \<notin> set var \<and>
       (\<forall>tensor_hat mape rmse. test_metrics c tensor_hat = Inr (mape, rmse) \<longrightarrow>
          (\<exists>var_hat. fancy_index tensor_hat (c_pos_test c) = Inr var_hat \<and>
             mape = compute_mape var var_hat)))"
proof -
  note fs = bgcp_setup_fields[OF assms(1)]
  let ?var = "map (\<lambda>(i, j, k). dense_tensor ! i ! j ! k) (pos_test_of dense_tensor sparse_tensor)"
  have a: "fancy_index (c_dense_tensor c) (c_pos_test c) = Inr ?var"
    unfolding fs by (rule fancy_index_pos_test(1)[OF assms(2,3)])
  have b: "0 \<notin> set ?var"
    by (rule fancy_index_pos_test(2)[OF assms(2,3)])
  have c: "\<exists>var_hat. fancy_index tensor_hat (c_pos_test c) = Inr var_hat \<and>
             mape = compute_mape ?var var_hat"
    if "test_metrics c tensor_hat = Inr (mape, rmse)" for tensor_hat mape rmse
    using that unfolding test_metrics_def a by (auto split: sum.splits)
  show ?thesis
    using a b c compute_mape_zero by blast
qed

theorem compute_mape_on_test_set_witness:
  "is_tensor 1 1 2 [[[2, 4 :: real]]] \<and> is_tensor 1 1 2 [[[2, 0 :: real]]] \<and>
   (\<exists>c. bgcp_setup [[[2, 4]]] [[[2, 0]]] [[[1, 1]], [[1, 1]], [[1, 1], [1, 1]]] 0 1 = Inr c \<and>
        fancy_index (c_dense_tensor c) (c_pos_test c) = Inr [4] \<and>
        test_metrics c [[[2, 3]]] = Inr (Exact (1 / 4), compute_rmse [4] [3])) \<and>
   compute_mape [0, 4] [3, 3] = NonFinite"
proof -
  let ?d = "[[[2, 4 :: real]]]" and ?s = "[[[2, 0 :: real]]]"
  have d: "is_tensor 1 1 2 ?d" and s: "is_tensor 1 1 2 ?s"
    by (simp_all add: is_tensor_def is_mat_def)
  obtain c where c: "bgcp_setup ?d ?s [[[1, 1]], [[1, 1]], [[1, 1], [1, 1]]] 0 1 = Inr c"
    by (simp add: bgcp_setup_def Let_def)
  have "pos_test_of ?d ?s = [(0, 0, 1)]"
    by (simp add: pos_test_of_def np_where3_def np_where2_def)
  then have p: "c_pos_test c = [(0, 0, 1)]" "c_dense_tensor c = ?d"
    by (simp_all add: bgcp_setup_fields[OF c])
  have f: "fancy_index ?d [(0, 0, 1)] = Inr [4]"
    by (simp add: fancy_index_def in_range3_def)
  have h: "fancy_index [[[2, 3 :: real]]] [(0, 0, 1)] = Inr [3]"
    by (simp add: fancy_index_def in_range3_def)
  have t: "test_metrics c [[[2, 3]]] = Inr (compute_mape [4] [3], compute_rmse [4] [3])"
    unfolding test_metrics_def p f h by simp
  from compute_mape_on_test_set[OF c d s]
  have z: "compute_mape [0, 4] [3, 3] = NonFinite" by simp
  have m: "compute_mape [4] [3] = Exact (1 / 4)"
    by (simp add: compute_mape_def)
  have "fancy_index (c_dense_tensor c) (c_pos_test c) = Inr [4]"
    unfolding p by (rule f)
  with d s c t z show ?thesis unfolding m by blast
qed

section \<open>The dense strategy of the factor draw\<close>

lemma is_mat_grid2 [simp]: "is_mat p q (grid2 p q f)"
  by (simp add: is_mat_def grid2_def list_all_iff)

lemma map2_mult_grid1:
  assumes "length u = r" "length v = r"
  shows "map2 (*) u v = grid1 r (\<lambda>s. u ! s * v ! s)"
  using assms by (auto simp: grid1_def intro!: nth_equalityI)

lemma kr_prod_grid:
  assumes "is_mat q r fhi" "is_mat p r flo"
  shows "kr_prod fhi flo
     = concat (map (\<lambda>b. map (\<lambda>a. grid1 r (\<lambda>s. fhi ! b ! s * flo ! a ! s)) [0..<p]) [0..<q])"
proof -
  have hi: "fhi = map (\<lambda>b. fhi ! b) [0..<q]"
    using is_mat_length[OF assms(1)] by (simp add: list_grid)
  have lo: "flo = map (\<lambda>a. flo ! a) [0..<p]"
    using is_mat_length[OF assms(2)] by (simp add: list_grid)
  have "map (\<lambda>ra. map (\<lambda>rb. map2 (*) ra rb) flo) fhi
      = map (\<lambda>b. map (\<lambda>a. map2 (*) (fhi ! b) (flo ! a)) [0..<p]) [0..<q]"
    by (subst hi, subst lo) (simp add: o_def)
  also have "\<dots> = map (\<lambda>b. map (\<lambda>a. grid1 r (\<lambda>s. fhi ! b ! s * flo ! a ! s)) [0..<p]) [0..<q]"
    using is_mat_nth[OF assms(1)] is_mat_nth[OF assms(2)]
    by (intro map_cong refl map2_mult_grid1) simp_all
  finally show ?thesis
    by (simp add: kr_prod_def einsum_ir_jr_ijr_def)
qed

lemma kr_prod_shape:
  assumes "is_mat q r fhi" "is_mat p r flo"
  shows "is_mat (p * q) r (kr_prod fhi flo)"
  unfolding kr_prod_grid[OF assms]
  by (auto simp: is_mat_def length_concat_grid list_all_iff)

lemma kr_prod_nth:
  assumes "is_mat q r fhi" "is_mat p r flo" "a < p" "b < q"
  shows "kr_prod fhi flo ! (a + p * b) = grid1 r (\<lambda>s. fhi ! b ! s * flo ! a ! s)"
  unfolding kr_prod_grid[OF assms(1,2)] using assms(3,4) by (rule nth_concat_grid)

lemma mat_T_grid2:
  assumes "is_mat n r a" "0 < n"
  shows "mat_T a = grid2 r n (\<lambda>s c. a ! c ! s)"
proof -
  have "map (\<lambda>row. row ! s) a = map (\<lambda>c. a ! c ! s) [0..<n]" for s
    using is_mat_length[OF assms(1)] by (auto intro!: nth_equalityI)
  then show ?thesis
    by (simp add: mat_T_def is_mat_ncols[OF assms] grid2_def)
qed

lemma mat_T_mat_T:
  assumes "is_mat d n a" "0 < d" "0 < n"
  shows "mat_T (mat_T a) = a"
proof -
  have "mat_T (grid2 n d (\<lambda>s c. a ! c ! s)) = grid2 d n (\<lambda>s c. grid2 n d (\<lambda>s c. a ! c ! s) ! c ! s)"
    by (rule mat_T_grid2) (simp_all add: assms)
  also have "\<dots> = grid2 d n (\<lambda>i j. a ! i ! j)"
    by (rule grid2_cong) simp
  finally show ?thesis
    using mat_T_grid2[OF assms(1,2)] mat_as_grid2[OF assms(1)] by simp
qed

lemma dot_grid1: "dot (grid1 n u) (grid1 n v) = (\<Sum>c<n. u c * v c)"
  by (simp add: dot_def grid1_def map2_map_map sum_list_map_nth)

lemma sum_grid_index:
  fixes F :: "nat \<Rightarrow> real"
  shows "(\<Sum>c<p * q. F c) = (\<Sum>b<q. \<Sum>a<p. F (a + p * b))"
proof (induction q)
  case 0
  then show ?case by simp
next
  case (Suc q)
  have "{..<p * Suc q} = {..<p * q} \<union> {p * q..<p * q + p}"
    by auto
  moreover have "{..<p * q} \<inter> {p * q..<p * q + p} = {}"
    by auto
  ultimately have "(\<Sum>c<p * Suc q. F c) = (\<Sum>c<p * q. F c) + (\<Sum>c\<in>{p * q..<p * q + p}. F c)"
    by (simp add: sum.union_disjoint)
  also have "(\<Sum>c\<in>{p * q..<p * q + p}. F c) = (\<Sum>a<p. F (a + p * q))"
    by (rule sum.reindex_bij_witness[where i = "\<lambda>a. a + p * q" and j = "\<lambda>c. c - p * q"]) auto
  finally show ?case
    using Suc.IH by simp
qed


lemma matmul_mat_T:
  assumes "is_mat d n b" "0 < d" "0 < n"
  shows "matmul a (mat_T b) = map (\<lambda>row. map (\<lambda>i. dot row (b ! i)) [0..<d]) a"
proof -
  have "map (\<lambda>c. dot row c) b = map (\<lambda>i. dot row (b ! i)) [0..<d]" for row
    using is_mat_length[OF assms(1)] by (auto intro!: nth_equalityI)
  then show ?thesis
    by (simp add: matmul_def mat_T_mat_T[OF assms])
qed

lemma slice_last_grid:
  assumes "i < d"
  shows "map (map (\<lambda>v. v ! i))
           (tensor_add (tensor_scale tau (grid2 r r (\<lambda>s s'. grid1 d (t s s'))))
              (dstack_mat (grid2 r r l) d))
       = grid2 r r (\<lambda>s s'. tau * t s s' i + l s s')"
  using assms
  by (simp add: tensor_add_def tensor_scale_def dstack_mat_def grid2_def grid1_def
      mat_scale_def vec_scale_def mat_add_def vec_add_def map2_map_map o_def
      map_replicate_const [symmetric])

lemma column_grid2: "i < d \<Longrightarrow> map (\<lambda>row. row ! i) (grid2 r d f) = grid1 r (\<lambda>s. f s i)"
  by (simp add: grid2_def grid1_def o_def)

lemma dstack_vec0_grid1: "dstack_vec0 (grid1 r v) d = grid2 r d (\<lambda>s i. v s)"
  by (simp add: dstack_vec0_def grid1_def grid2_def map_replicate_const)

lemma matvec_grid: 
  assumes "is_mat r r l" "length mu = r"
  shows "matvec l mu = grid1 r (\<lambda>p. \<Sum>q<r. l ! p ! q * mu ! q)"
proof -
  have "dot (l ! p) mu = (\<Sum>q<r. l ! p ! q * mu ! q)" if "p < r" for p
  proof -
    have "l ! p = grid1 r (\<lambda>q. l ! p ! q)"
      using is_mat_nth[OF assms(1) that] by (rule vec_as_grid1)
    moreover have "mu = grid1 r (\<lambda>q. mu ! q)"
      using assms(2) by (rule vec_as_grid1)
    ultimately show ?thesis
      by (metis dot_grid1)
  qed
  moreover have "matvec l mu = map (\<lambda>p. dot (l ! p) mu) [0..<r]"
    using is_mat_length[OF assms(1)] by (auto simp: matvec_def intro!: nth_equalityI)
  ultimately show ?thesis
    by (simp add: grid1_def)
qed


lemma sum_observed:
  fixes F :: "nat \<Rightarrow> nat \<Rightarrow> real"
  assumes "\<And>a b. a < p \<Longrightarrow> b < q \<Longrightarrow> \<not> obs a b \<Longrightarrow> G a b = 0"
    and "\<And>a b. a < p \<Longrightarrow> b < q \<Longrightarrow> obs a b \<Longrightarrow> G a b = F a b"
  shows "(\<Sum>b<q. \<Sum>a<p. G a b) = (\<Sum>(a, b)\<in>{(a, b). a < p \<and> b < q \<and> obs a b}. F a b)"
proof -
  have "(\<Sum>b<q. \<Sum>a<p. G a b) = (\<Sum>a<p. \<Sum>b<q. G a b)"
    by (rule sum.swap)
  also have "\<dots> = (\<Sum>(a, b)\<in>{..<p} \<times> {..<q}. G a b)"
    by (simp add: sum.cartesian_product)
  also have "\<dots> = (\<Sum>(a, b)\<in>{(a, b). a < p \<and> b < q \<and> obs a b}. F a b)"
  proof (rule sum.mono_neutral_cong_right)
    show "finite ({..<p} \<times> {..<q})" by simp
    show "{(a, b). a < p \<and> b < q \<and> obs a b} \<subseteq> {..<p} \<times> {..<q}" by auto
    show "\<forall>x\<in>{..<p} \<times> {..<q} - {(a, b). a < p \<and> b < q \<and> obs a b}. (case x of (a, b) \<Rightarrow> G a b) = 0"
      using assms(1) by auto
    show "\<And>x. x \<in> {(a, b). a < p \<and> b < q \<and> obs a b} \<Longrightarrow>
        (case x of (a, b) \<Rightarrow> G a b) = (case x of (a, b) \<Rightarrow> F a b)"
      using assms(2) by auto
  qed
  finally show ?thesis .
qed

text \<open>The statistics of the dense strategy, for a mode whose unfolded tensors are given row-wise.\<close>

lemma dense_statistics:
  fixes bent yent :: "nat \<Rightarrow> nat \<Rightarrow> nat \<Rightarrow> real"
  assumes hi: "is_mat q r fhi" and lo: "is_mat p r flo"
    and pos: "0 < p" "0 < q" "0 < r" "0 < d"
    and l: "is_mat r r l" and mu: "length mu = r"
    and bmat: "bmat = map (\<lambda>i. concat (map (\<lambda>b. map (\<lambda>a. bent i a b) [0..<p]) [0..<q])) [0..<d]"
    and ymat: "ymat = map (\<lambda>i. concat (map (\<lambda>b. map (\<lambda>a. yent i a b) [0..<p]) [0..<q])) [0..<d]"
    and i: "i < d"
  defines "var1 \<equiv> mat_T (kr_prod fhi flo)"
  defines "c \<equiv> \<lambda>a b. kr_prod fhi flo ! (a + p * b)"
  shows "map (map (\<lambda>v. v ! i))
           (tensor_add (tensor_scale tau (reshape_C3 r r (matmul (kr_prod var1 var1) (mat_T bmat))))
              (dstack_mat l d))
       = grid2 r r (\<lambda>s s'. tau * (\<Sum>b<q. \<Sum>a<p. c a b ! s * c a b ! s' * bent i a b) + l ! s ! s')"
    (is "?A = ?A'")
    and "map (\<lambda>row. row ! i)
           (mat_add (matmul (mat_scale tau var1) (mat_T ymat)) (dstack_vec0 (matvec l mu) d))
       = grid1 r (\<lambda>s. tau * (\<Sum>b<q. \<Sum>a<p. yent i a b * c a b ! s) + (\<Sum>s'<r. l ! s ! s' * mu ! s'))"
    (is "?B = ?B'")
proof -
  let ?n = "p * q"
  let ?K = "kr_prod fhi flo"
  have n: "0 < ?n" using pos by simp
  have K: "is_mat ?n r ?K" by (rule kr_prod_shape[OF hi lo])
  have v1: "var1 = grid2 r ?n (\<lambda>s c. ?K ! c ! s)"
    unfolding var1_def by (rule mat_T_grid2[OF K n])
  have v1m: "is_mat r ?n var1" unfolding v1 by simp
  have bm: "is_mat d ?n bmat" and ym: "is_mat d ?n ymat"
    unfolding bmat ymat by (simp_all add: is_mat_def list_all_iff length_concat_grid)
  have brow: "bmat ! i = grid1 ?n (\<lambda>c. bmat ! i ! c)" and yrow: "ymat ! i = grid1 ?n (\<lambda>c. ymat ! i ! c)"
    using is_mat_nth[OF bm i] is_mat_nth[OF ym i] by (simp_all add: vec_as_grid1)
  have bnth: "bmat ! i ! (a + p * b) = bent i a b" and ynth: "ymat ! i ! (a + p * b) = yent i a b"
    if "a < p" "b < q" for a b
    using i that by (simp_all add: bmat ymat nth_concat_grid)
  \<comment> \<open>the precision\<close>
  have v2: "kr_prod var1 var1 ! (s' + r * s) = grid1 ?n (\<lambda>c. ?K ! c ! s * ?K ! c ! s')"
    if "s < r" "s' < r" for s s'
  proof -
    have "kr_prod var1 var1 ! (s' + r * s) = grid1 ?n (\<lambda>c. var1 ! s ! c * var1 ! s' ! c)"
      by (rule kr_prod_nth[OF v1m v1m that(2,1)])
    also have "\<dots> = grid1 ?n (\<lambda>c. ?K ! c ! s * ?K ! c ! s')"
      using that by (intro grid1_cong) (simp add: v1)
    finally show ?thesis .
  qed
  have v2len: "length (kr_prod var1 var1) = r * r"
    using is_mat_length[OF kr_prod_shape[OF v1m v1m]] .
  have "reshape_C3 r r (matmul (kr_prod var1 var1) (mat_T bmat))
      = grid2 r r (\<lambda>s s'. grid1 d (\<lambda>j. dot (kr_prod var1 var1 ! (s' + r * s)) (bmat ! j)))"
    unfolding reshape_C3_def grid2_def matmul_mat_T[OF bm pos(4) n]
  proof (intro map_cong refl)
    fix s s' assume "s \<in> set [0..<r]" "s' \<in> set [0..<r]"
    then have "s < r" "s' < r" by simp_all
    then have "s * r + s' < r * r"
      by (metis add.commute mult.commute add_less_cancel_left less_le_trans Suc_leI mult_Suc_right mult_le_mono2)
    then show "map (\<lambda>row. map (\<lambda>i. dot row (bmat ! i)) [0..<d]) (kr_prod var1 var1) ! (s * r + s')
        = grid1 d (\<lambda>j. dot (kr_prod var1 var1 ! (s' + r * s)) (bmat ! j))"
      by (simp add: v2len grid1_def add.commute mult.commute)
  qed
  then have "?A = grid2 r r (\<lambda>s s'. tau * dot (kr_prod var1 var1 ! (s' + r * s)) (bmat ! i) + l ! s ! s')"
    by (subst mat_as_grid2[OF l]) (simp only: slice_last_grid[OF i])
  also have "\<dots> = ?A'"
  proof (rule grid2_cong)
    fix s s' assume s: "s < r" "s' < r"
    have "dot (kr_prod var1 var1 ! (s' + r * s)) (bmat ! i)
        = (\<Sum>c<?n. ?K ! c ! s * ?K ! c ! s' * bmat ! i ! c)"
      by (subst brow) (simp add: v2[OF s] dot_grid1)
    also have "\<dots> = (\<Sum>b<q. \<Sum>a<p. c a b ! s * c a b ! s' * bent i a b)"
      by (simp add: sum_grid_index c_def bnth)
    finally show "tau * dot (kr_prod var1 var1 ! (s' + r * s)) (bmat ! i) + l ! s ! s'
        = tau * (\<Sum>b<q. \<Sum>a<p. c a b ! s * c a b ! s' * bent i a b) + l ! s ! s'"
      by simp
  qed
  finally show "?A = ?A'" .
  \<comment> \<open>the right-hand side of the mean\<close>
  have "mat_scale tau var1 = grid2 r ?n (\<lambda>s c. tau * (?K ! c ! s))"
    by (simp add: v1 mat_scale_grid2)
  then have "matmul (mat_scale tau var1) (mat_T ymat)
      = grid2 r d (\<lambda>s j. dot (grid1 ?n (\<lambda>c. tau * (?K ! c ! s))) (ymat ! j))"
    by (simp add: matmul_mat_T[OF ym pos(4) n] grid2_def grid1_def)
  then have "?B = grid1 r (\<lambda>s. dot (grid1 ?n (\<lambda>c. tau * (?K ! c ! s))) (ymat ! i)
      + (\<Sum>s'<r. l ! s ! s' * mu ! s'))"
    by (simp add: matvec_grid[OF l mu] dstack_vec0_grid1 mat_add_grid2 column_grid2[OF i])
  also have "\<dots> = ?B'"
  proof (rule grid1_cong)
    fix s assume s: "s < r"
    have "dot (grid1 ?n (\<lambda>c. tau * (?K ! c ! s))) (ymat ! i)
        = (\<Sum>c<?n. tau * (?K ! c ! s) * ymat ! i ! c)"
      by (subst yrow) (simp add: dot_grid1)
    also have "\<dots> = (\<Sum>b<q. \<Sum>a<p. tau * (?K ! (a + p * b) ! s) * ymat ! i ! (a + p * b))"
      by (rule sum_grid_index)
    also have "\<dots> = (\<Sum>b<q. \<Sum>a<p. tau * (yent i a b * c a b ! s))"
      by (intro sum.cong refl) (simp add: ynth c_def)
    also have "\<dots> = tau * (\<Sum>b<q. \<Sum>a<p. yent i a b * c a b ! s)"
      by (simp add: sum_distrib_left)
    finally show "dot (grid1 ?n (\<lambda>c. tau * (?K ! c ! s))) (ymat ! i) + (\<Sum>s'<r. l ! s ! s' * mu ! s')
        = tau * (\<Sum>b<q. \<Sum>a<p. yent i a b * c a b ! s) + (\<Sum>s'<r. l ! s ! s' * mu ! s')"
      by simp
  qed
  finally show "?B = ?B'" .
qed

lemma is_tensor_update:
  assumes "is_tensor m n f t"
  shows "is_tensor m n f (t[i := (t ! i)[j := (t ! i ! j)[k := v]]])"
proof (cases "i < length t")
  case False
  then have "t[i := (t ! i)[j := (t ! i ! j)[k := v]]] = t"
    by (intro list_update_beyond) simp
  then show ?thesis using assms by simp
next
  case True
  have s: "is_mat n f (t ! i)"
    using assms True by (simp add: is_tensor_def list_all_length)
  have "is_mat n f ((t ! i)[j := (t ! i ! j)[k := v]])"
  proof (cases "j < length (t ! i)")
    case False
    then have "(t ! i)[j := (t ! i ! j)[k := v]] = t ! i"
      by (intro list_update_beyond) simp
    then show ?thesis using s by simp
  next
    case True
    then show ?thesis
      using s by (auto simp: is_mat_def list_all_length nth_list_update)
  qed
  then show ?thesis
    using assms True by (auto simp: is_tensor_def list_all_length nth_list_update)
qed

lemma update_nth3:
  assumes "is_tensor m n f t" "i0 < m" "j0 < n" "k0 < f" "i < m" "j < n" "k < f"
  shows "t[i0 := (t ! i0)[j0 := (t ! i0 ! j0)[k0 := v]]] ! i ! j ! k
       = (if (i, j, k) = (i0, j0, k0) then v else t ! i ! j ! k)"
  using assms is_mat_length[OF is_tensor_nth[OF assms(1,2)]]
    is_mat_nth[OF is_tensor_nth[OF assms(1,2)] assms(3)]
  by (auto simp: nth_list_update is_tensor_length)

lemma fancy_assign_tensor_aux:
  assumes "is_tensor m n f t" "\<forall>(i, j, k)\<in>set pos. i < m \<and> j < n \<and> k < f"
  shows "is_tensor m n f (fancy_assign t pos v) \<and>
    (\<forall>i j k. i < m \<longrightarrow> j < n \<longrightarrow> k < f \<longrightarrow>
          fancy_assign t pos v ! i ! j ! k = (if (i, j, k) \<in> set pos then v else t ! i ! j ! k))"
  using assms
proof (induction pos arbitrary: t)
  case Nil
  then show ?case by (simp add: fancy_assign_def)
next
  case (Cons x pos)
  obtain i0 j0 k0 where x: "x = (i0, j0, k0)" by (cases x) auto
  let ?t = "t[i0 := (t ! i0)[j0 := (t ! i0 ! j0)[k0 := v]]]"
  have fa: "fancy_assign t (x # pos) v = fancy_assign ?t pos v"
    by (simp add: fancy_assign_def x)
  have t': "is_tensor m n f ?t" by (rule is_tensor_update[OF Cons.prems(1)])
  have r: "i0 < m" "j0 < n" "k0 < f" using Cons.prems(2) by (simp_all add: x)
  have rest: "\<forall>(i, j, k)\<in>set pos. i < m \<and> j < n \<and> k < f"
    using Cons.prems(2) by simp
  note ih = Cons.IH[OF t' rest]
  show ?case
    unfolding fa using ih by (auto simp: update_nth3[OF Cons.prems(1) r] x)
qed

lemma fancy_assign_tensor:
  assumes "is_tensor m n f t" "\<forall>(i, j, k)\<in>set pos. i < m \<and> j < n \<and> k < f"
  shows "is_tensor m n f (fancy_assign t pos v)"
    and "\<And>i j k. i < m \<Longrightarrow> j < n \<Longrightarrow> k < f \<Longrightarrow>
          fancy_assign t pos v ! i ! j ! k = (if (i, j, k) \<in> set pos then v else t ! i ! j ! k)"
  using fancy_assign_tensor_aux[OF assms] by blast+

lemma zeros3_tensor: "is_tensor m n f (zeros3 m n f)"
  by (simp add: is_tensor_def is_mat_def zeros3_def zeros2_def zeros1_def list_all_iff)

lemma zeros3_nth: "i < m \<Longrightarrow> j < n \<Longrightarrow> k < f \<Longrightarrow> zeros3 m n f ! i ! j ! k = 0"
  by (simp add: zeros3_def zeros2_def zeros1_def)

lemma binary_tensor_of_mask:
  assumes "is_tensor m n f sparse" "0 < m" "0 < n"
  shows "is_tensor m n f (binary_tensor_of sparse)"
    and "\<And>i j k. i < m \<Longrightarrow> j < n \<Longrightarrow> k < f \<Longrightarrow>
          binary_tensor_of sparse ! i ! j ! k = (if sparse ! i ! j ! k \<noteq> 0 then 1 else 0)"
proof -
  have b: "binary_tensor_of sparse = fancy_assign (zeros3 m n f) (pos_train_of sparse) 1"
    by (simp add: binary_tensor_of_def is_tensor_shape3[OF assms])
  have r: "\<forall>(i, j, k)\<in>set (pos_train_of sparse). i < m \<and> j < n \<and> k < f"
    by (auto simp: pos_train_of_iff[OF assms(1)])
  show "is_tensor m n f (binary_tensor_of sparse)"
    unfolding b by (rule fancy_assign_tensor(1)[OF zeros3_tensor r])
  show "binary_tensor_of sparse ! i ! j ! k = (if sparse ! i ! j ! k \<noteq> 0 then 1 else 0)"
    if "i < m" "j < n" "k < f" for i j k
    unfolding b using that
    by (simp add: fancy_assign_tensor(2)[OF zeros3_tensor r that] pos_train_of_iff[OF assms(1)] zeros3_nth)
qed

lemma ten2mat_mode_entry:
  assumes "is_tensor m n f t" "0 < m" "0 < n" "k < 3"
    and "other_modes k = (lo, hi)"
  shows "ten2mat t k = Inr (map (\<lambda>i. concat (map (\<lambda>b. map (\<lambda>a. mode_entry t k i a b)
             [0..<[m, n, f] ! lo]) [0..<[m, n, f] ! hi])) [0..<[m, n, f] ! k])"
proof -
  from assms(4) consider "k = 0" | "k = 1" | "k = 2" by linarith
  then show ?thesis
  proof cases
    case 1
    then show ?thesis
      using assms(5) ten2mat_mode0[OF assms(1-3)]
      by (auto simp: other_modes_def mode_entry_def)
  next
    case 2
    then show ?thesis
      using assms(5) ten2mat_mode1[OF assms(1-3)]
      by (auto simp: other_modes_def mode_entry_def)
  next
    case 3
    then show ?thesis
      using assms(5) ten2mat_mode2[OF assms(1-3)]
      by (auto simp: other_modes_def mode_entry_def)
  qed
qed

lemma symmetrized_grid2:
  assumes "0 < r"
  shows "mat_div (mat_add (grid2 r r F) (mat_T (grid2 r r F))) 2 = symmetrized (grid2 r r F)"
proof -
  have "mat_T (grid2 r r F) = grid2 r r (\<lambda>s c. grid2 r r F ! c ! s)"
    by (rule mat_T_grid2) (simp_all add: assms)
  also have "\<dots> = grid2 r r (\<lambda>s c. F c s)"
    by (rule grid2_cong) simp
  finally have "mat_div (mat_add (grid2 r r F) (mat_T (grid2 r r F))) 2
      = grid2 r r (\<lambda>p q. (F p q + F q p) / 2)"
    by (simp add: mat_add_grid2 mat_div_grid2)
  also have "\<dots> = symmetrized (grid2 r r F)"
    unfolding symmetrized_def length_grid2 by (rule grid2_cong) simp
  finally show ?thesis .
qed

lemma other_modes_cases:
  assumes "k < 3" "other_modes k = (lo, hi)"
  shows "lo < 3" "hi < 3" "lo \<noteq> k" "hi \<noteq> k" "lo < hi"
  using assms by (auto simp: other_modes_def split: if_splits)

text \<open>
  C2: let the sparse tensor have shape \<open>(m, n, f)\<close>, the three factor matrices \<open>r\<close> columns
  and as many rows as the tensor has entries along their mode, and let the binary tensor
  be the mask that \<open>BGCP\<close> builds from the sparse tensor.  When the dense strategy is in
  force, \<open>sample_factor\<close> for mode \<open>k\<close> draws the rows \<open>i = 0, \<dots>\<close> in order, row \<open>i\<close> from the
  Gaussian whose covariance is the inverse of the symmetrized
  \<open>\<Lambda>\<^sub>i\<^sup>* = \<tau> \<Sum> c c\<^sup>T + \<Lambda>\<close> and whose mean is that inverse applied to \<open>\<tau> \<Sum> y c + \<Lambda> \<mu>\<close>; the sums
  range over the observed coordinates paired with \<open>i\<close> only, \<open>c\<close> being the row of the
  Khatri-Rao product of the two other factor matrices for the coordinate.
\<close>

theorem sample_factor_dense_posterior:
  assumes t: "is_tensor m n f sparse_tensor" and pos: "0 < m" "0 < n" "0 < f" "0 < r"
    and len: "3 \<le> length factor"
    and fs: "is_mat m r (factor ! 0)" "is_mat n r (factor ! 1)" "is_mat f r (factor ! 2)"
    and l: "is_mat r r Lambda_hyper" and mu: "length mu_hyper = r"
    and k: "k < 3"
    and dense: "choose_vargin ([m, n, f] ! k) r (m, n, f) vargin = 0"
  shows "sample_factor lib sparse_tensor (binary_tensor_of sparse_tensor) tau factor
           mu_hyper Lambda_hyper k vargin g
       = Inr (gaussian_rows lib
                (posterior_params lib tau sparse_tensor factor mu_hyper Lambda_hyper k)
                ([m, n, f] ! k) (factor ! k, g))"
proof -
  obtain lo hi where om: "other_modes k = (lo, hi)" by (cases "other_modes k") auto
  note oc = other_modes_cases[OF k om]
  let ?dims = "[m, n, f]"
  let ?d = "?dims ! k" and ?p = "?dims ! lo" and ?q = "?dims ! hi"
  let ?bin = "binary_tensor_of sparse_tensor"
  have fmat: "is_mat (?dims ! j) r (factor ! j)" if "j < 3" for j
  proof -
    from that consider "j = 0" | "j = 1" | "j = 2" by linarith
    then show ?thesis using fs by cases simp_all
  qed
  have dpos: "0 < ?dims ! j" if "j < 3" for j
  proof -
    from that consider "j = 0" | "j = 1" | "j = 2" by linarith
    then show ?thesis using pos by cases simp_all
  qed
  have dk: "length (factor ! k) = ?d" and rk: "ncols (factor ! k) = r"
    using is_mat_length[OF fmat[OF k]] is_mat_ncols[OF fmat[OF k] dpos[OF k]] by simp_all
  have sh: "shape3 sparse_tensor = (m, n, f)" by (rule is_tensor_shape3[OF t pos(1,2)])
  have bt: "is_tensor m n f ?bin" by (rule binary_tensor_of_mask(1)[OF t pos(1,2)])
  let ?bmat = "map (\<lambda>i. concat (map (\<lambda>b. map (\<lambda>a. mode_entry ?bin k i a b) [0..<?p]) [0..<?q])) [0..<?d]"
  let ?ymat = "map (\<lambda>i. concat (map (\<lambda>b. map (\<lambda>a. mode_entry sparse_tensor k i a b) [0..<?p]) [0..<?q])) [0..<?d]"
  have tb: "ten2mat ?bin k = Inr ?bmat" by (rule ten2mat_mode_entry[OF bt pos(1,2) k om])
  have ty: "ten2mat sparse_tensor k = Inr ?ymat" by (rule ten2mat_mode_entry[OF t pos(1,2) k om])
  let ?var1 = "mat_T (kr_prod (factor ! hi) (factor ! lo))"
  have v1: "(if k = 0 then mat_T (kr_prod (factor ! (k + 2)) (factor ! (k + 1)))
             else if k = 1 then mat_T (kr_prod (factor ! (k + 1)) (factor ! (k - 1)))
             else mat_T (kr_prod (factor ! (k - 1)) (factor ! (k - 2)))) = ?var1"
  proof -
    from k consider "k = 0" | "k = 1" | "k = 2" by linarith
    then show ?thesis
      using om by cases (auto simp: other_modes_def numeral_2_eq_2)
  qed
  let ?var3 = "tensor_add (tensor_scale tau (reshape_C3 r r (matmul (kr_prod ?var1 ?var1) (mat_T ?bmat))))
                 (dstack_mat Lambda_hyper ?d)"
  let ?var4 = "mat_add (matmul (mat_scale tau ?var1) (mat_T ?ymat))
                 (dstack_vec0 (matvec Lambda_hyper mu_hyper) ?d)"
  have sf: "sample_factor lib sparse_tensor ?bin tau factor mu_hyper Lambda_hyper k vargin g
      = Inr (foldl (dense_row lib ?var3 ?var4) (factor ! k, g) [0..<?d])"
    using k len unfolding sample_factor_def Let_def dk rk sh dense v1 tb ty
    by simp
  have row: "dense_row lib ?var3 ?var4 s i
      = (case s of (factor_k, g) \<Rightarrow>
           (case mvnrnd lib (fst (posterior_params lib tau sparse_tensor factor mu_hyper Lambda_hyper k i))
                   (snd (posterior_params lib tau sparse_tensor factor mu_hyper Lambda_hyper k i)) g of
              (row, g') \<Rightarrow> (factor_k[i := row], g')))" if i: "i < ?d" for s i
  proof -
    let ?c = "\<lambda>a b. kr_prod (factor ! hi) (factor ! lo) ! (a + ?p * b)"
    have kr: "?c a b = kr_row factor k a b" for a b
      using is_mat_length[OF fmat[OF oc(1)]]
      by (simp add: kr_row_def om add.commute mult.commute)
    have mask: "mode_entry ?bin k i a b = (if mode_entry sparse_tensor k i a b \<noteq> 0 then 1 else 0)"
      if "a < ?p" "b < ?q" for a b
    proof -
      from k consider "k = 0" | "k = 1" | "k = 2" by linarith
      then show ?thesis
        using that i om
        by cases (simp_all add: mode_entry_def other_modes_def binary_tensor_of_mask(2)[OF t pos(1,2)])
    qed
    have obs: "observed_pairs sparse_tensor k i
        = {(a, b). a < ?p \<and> b < ?q \<and> mode_entry sparse_tensor k i a b \<noteq> 0}"
      by (simp add: observed_pairs_def sh om)
    note st = dense_statistics[OF fmat[OF oc(2)] fmat[OF oc(1)] dpos[OF oc(1)] dpos[OF oc(2)] pos(4)
        dpos[OF k] l mu refl refl i, where tau = tau]
    have prec: "map (map (\<lambda>v. v ! i)) ?var3
        = posterior_precision tau sparse_tensor factor Lambda_hyper k i"
      unfolding st(1) posterior_precision_def Let_def rk obs
    proof (rule grid2_cong)
      fix s s' assume "s < r" "s' < r"
      have "(\<Sum>b<?q. \<Sum>a<?p. ?c a b ! s * ?c a b ! s' * mode_entry ?bin k i a b)
          = (\<Sum>(a, b)\<in>{(a, b). a < ?p \<and> b < ?q \<and> mode_entry sparse_tensor k i a b \<noteq> 0}.
               ?c a b ! s * ?c a b ! s')"
        by (rule sum_observed) (simp_all add: mask)
      then show "tau * (\<Sum>b<?q. \<Sum>a<?p. ?c a b ! s * ?c a b ! s' * mode_entry ?bin k i a b)
            + Lambda_hyper ! s ! s'
          = tau * (\<Sum>(a, b)\<in>{(a, b). a < ?p \<and> b < ?q \<and> mode_entry sparse_tensor k i a b \<noteq> 0}.
               kr_row factor k a b ! s * kr_row factor k a b ! s') + Lambda_hyper ! s ! s'"
        by (simp add: kr)
    qed
    have rhs: "map (\<lambda>row. row ! i) ?var4
        = posterior_rhs tau sparse_tensor factor mu_hyper Lambda_hyper k i"
      unfolding st(2) posterior_rhs_def Let_def rk obs
    proof (rule grid1_cong)
      fix s assume "s < r"
      have "(\<Sum>b<?q. \<Sum>a<?p. mode_entry sparse_tensor k i a b * ?c a b ! s)
          = (\<Sum>(a, b)\<in>{(a, b). a < ?p \<and> b < ?q \<and> mode_entry sparse_tensor k i a b \<noteq> 0}.
               mode_entry sparse_tensor k i a b * ?c a b ! s)"
        by (rule sum_observed) simp_all
      then show "tau * (\<Sum>b<?q. \<Sum>a<?p. mode_entry sparse_tensor k i a b * ?c a b ! s)
            + (\<Sum>s'<r. Lambda_hyper ! s ! s' * mu_hyper ! s')
          = tau * (\<Sum>(a, b)\<in>{(a, b). a < ?p \<and> b < ?q \<and> mode_entry sparse_tensor k i a b \<noteq> 0}.
               mode_entry sparse_tensor k i a b * kr_row factor k a b ! s)
            + (\<Sum>q<r. Lambda_hyper ! s ! q * mu_hyper ! q)"
        by (simp add: kr)
    qed
    have sym: "mat_div (mat_add (posterior_precision tau sparse_tensor factor Lambda_hyper k i)
          (mat_T (posterior_precision tau sparse_tensor factor Lambda_hyper k i))) 2
        = symmetrized (posterior_precision tau sparse_tensor factor Lambda_hyper k i)"
      unfolding posterior_precision_def Let_def rk by (rule symmetrized_grid2[OF pos(4)])
    show ?thesis
      unfolding dense_row_def Let_def prec rhs sym posterior_params_def
      by (simp add: case_prod_unfold)
  qed
  have "foldl (dense_row lib ?var3 ?var4) (factor ! k, g) [0..<?d]
      = gaussian_rows lib (posterior_params lib tau sparse_tensor factor mu_hyper Lambda_hyper k)
          ?d (factor ! k, g)"
    unfolding gaussian_rows_def by (rule foldl_cong) (simp_all add: row)
  with sf show ?thesis by simp
qed

theorem sample_factor_dense_posterior_witness:
  "is_tensor 2 2 2 [[[1, 0], [2, 3]], [[0, 5], [6, 0 :: real]]] \<and>
   choose_vargin 2 2 (2, 2, 2) 0 = 0 \<and>
   gaussian_rows test_lib
     (posterior_params test_lib 2 [[[1, 0], [2, 3]], [[0, 5], [6, 0]]]
        [[[1, 2], [3, 4]], [[1, 1], [2, 0]], [[1, 3], [0, 1]]] [1, 1] [[1, 0], [0, 1]] 0)
     2 ([[1, 2], [3, 4]], 0)
   = ([[167 / 173, 11 / 173], [25 / 9, 11 / 3]], 2)"
proof -
  let ?y = "[[[1, 0], [2, 3]], [[0, 5], [6, 0 :: real]]]"
  let ?fs = "[[[1, 2], [3, 4]], [[1, 1], [2, 0]], [[1, 3], [0, 1 :: real]]]"
  have t: "is_tensor 2 2 2 ?y" by (simp add: is_tensor_def is_mat_def)
  have f0: "is_mat 2 2 (?fs ! 0)" and f1: "is_mat 2 2 (?fs ! 1)" and f2: "is_mat 2 2 (?fs ! 2)"
    and l: "is_mat 2 2 [[1, 0], [0, 1 :: real]]"
    by (simp_all add: is_mat_def)
  have cv: "choose_vargin 2 2 (2, 2, 2) 0 = 0" by (simp add: choose_vargin_def)
  then have cv': "choose_vargin ([2, 2, 2] ! 0) 2 (2, 2, 2) 0 = 0" by simp
  have v: "sample_factor test_lib ?y (binary_tensor_of ?y) 2 ?fs [1, 1] [[1, 0], [0, 1]] 0 0 0
      = Inr ([[167 / 173, 11 / 173], [25 / 9, 11 / 3]], 2)"
    by code_simp
  have "sample_factor test_lib ?y (binary_tensor_of ?y) 2 ?fs [1, 1] [[1, 0], [0, 1]] 0 0 0
      = Inr (gaussian_rows test_lib (posterior_params test_lib 2 ?y ?fs [1, 1] [[1, 0], [0, 1]] 0)
               ([2, 2, 2] ! 0) (?fs ! 0, 0))"
    by (rule sample_factor_dense_posterior[OF t _ _ _ _ _ f0 f1 f2 l _ _ cv']) simp_all
  with v t cv show ?thesis by simp
qed

section \<open>The two strategies of the factor draw\<close>

text \<open>
  C1 does not hold of the code.  The per-row strategy reads the slice of the binary and of
  the sparse tensor at the loop-invariant index \<open>k\<close>, not at the row index \<open>i\<close>, so every
  row of mode \<open>k\<close> gets the posterior parameters of slice \<open>k\<close>.  On a \<open>2 \<times> 2 \<times> 2\<close> tensor with
  rank 2 and mode 0, with draws that return the posterior mean, the dense strategy returns
  the two different posterior means of the rows 0 and 1, and the per-row strategy returns
  the posterior mean of row 0 twice.
\<close>

theorem sample_factor_strategies_differ:
  "sample_factor test_lib [[[1, 0], [2, 3]], [[0, 5], [6, 0]]]
       (binary_tensor_of [[[1, 0], [2, 3]], [[0, 5], [6, 0]]]) 2
       [[[1, 2], [3, 4]], [[1, 1], [2, 0]], [[1, 3], [0, 1]]] [1, 1] [[1, 0], [0, 1]] 0 0 0
     = Inr ([[167 / 173, 11 / 173], [25 / 9, 11 / 3]], 2) \<and>
   sample_factor test_lib [[[1, 0], [2, 3]], [[0, 5], [6, 0]]]
       (binary_tensor_of [[[1, 0], [2, 3]], [[0, 5], [6, 0]]]) 2
       [[[1, 2], [3, 4]], [[1, 1], [2, 0]], [[1, 3], [0, 1]]] [1, 1] [[1, 0], [0, 1]] 0 1 0
     = Inr ([[167 / 173, 11 / 173], [167 / 173, 11 / 173]], 2)"
  by code_simp

section \<open>The sweeps of the Gibbs sampler\<close>

lemma fold_err_snoc:
  "fold_err body s (xs @ [x]) =
     (case fold_err body s xs of Inl e \<Rightarrow> Inl e | Inr s' \<Rightarrow> body s' x)"
  by (induction xs arbitrary: s) (auto split: sum.splits)

lemma fold_err_upt_Suc:
  "fold_err body s [0..<Suc n] =
     (case fold_err body s [0..<n] of Inl e \<Rightarrow> Inl e | Inr s' \<Rightarrow> body s' n)"
  by (simp add: fold_err_snoc)

lemma fold_err_three:
  "fold_err body s [0..<3] =
     (case body s 0 of
        Inl e \<Rightarrow> Inl e
      | Inr s0 \<Rightarrow> (case body s0 1 of Inl e \<Rightarrow> Inl e | Inr s1 \<Rightarrow> body s1 2))"
proof -
  have "[0..<3] = [0, 1, 2]" by (simp add: upt_rec)
  then show ?thesis by (simp split: sum.splits)
qed

lemma mode_update_Inr:
  assumes "mode_update lib c st k = Inr st'"
  shows "\<exists>h g1 fk g2.
     sample_hyperparameter lib (s_factor st ! k) (c_mu0 c) (c_beta0 c) (c_W0 c) (c_nu0 c) (s_gen st)
       = (h, g1) \<and>
     sample_factor lib (c_sparse_tensor c) (c_binary_tensor c) (s_tau st) (s_factor st)
       (fst h) (snd h) k 0 g1 = Inr (fk, g2) \<and>
     st' = st\<lparr>s_factor := (s_factor st)[k := fk], s_gen := g2,
               s_calls := s_calls st @
                 [Hyper k (s_factor st ! k), Factor k (s_tau st) (s_factor st) (fst h) (snd h)]\<rparr>"
  using assms unfolding mode_update_def
  by (auto split: if_splits prod.splits sum.splits)


lemma sweep_Inr:
  assumes "sweep lib c st = Inr (st', tensor_hat)"
  shows "\<exists>h0 g1 f0 g2 h1 g3 f1 g4 h2 g5 f2 g6 tau' g7.
     sample_hyperparameter lib (s_factor st ! 0) (c_mu0 c) (c_beta0 c) (c_W0 c) (c_nu0 c) (s_gen st)
       = (h0, g1) \<and>
     sample_factor lib (c_sparse_tensor c) (c_binary_tensor c) (s_tau st) (s_factor st)
       (fst h0) (snd h0) 0 0 g1 = Inr (f0, g2) \<and>
     sample_hyperparameter lib ((s_factor st)[0 := f0] ! 1) (c_mu0 c) (c_beta0 c) (c_W0 c) (c_nu0 c) g2
       = (h1, g3) \<and>
     sample_factor lib (c_sparse_tensor c) (c_binary_tensor c) (s_tau st) ((s_factor st)[0 := f0])
       (fst h1) (snd h1) 1 0 g3 = Inr (f1, g4) \<and>
     sample_hyperparameter lib ((s_factor st)[0 := f0, 1 := f1] ! 2) (c_mu0 c) (c_beta0 c) (c_W0 c)
       (c_nu0 c) g4 = (h2, g5) \<and>
     sample_factor lib (c_sparse_tensor c) (c_binary_tensor c) (s_tau st)
       ((s_factor st)[0 := f0, 1 := f1]) (fst h2) (snd h2) 2 0 g5 = Inr (f2, g6) \<and>
     cp_combine ((s_factor st)[0 := f0, 1 := f1, 2 := f2]) = Inr tensor_hat \<and>
     sample_precision_tau lib (c_sparse_tensor c) tensor_hat (c_pos_train c) (c_alpha c) (c_beta c) g6
       = Inr (tau', g7) \<and>
     st' = st\<lparr>s_factor := (s_factor st)[0 := f0, 1 := f1, 2 := f2], s_tau := tau', s_gen := g7,
               s_calls := s_calls st @
                 [Hyper 0 (s_factor st ! 0),
                  Factor 0 (s_tau st) (s_factor st) (fst h0) (snd h0),
                  Hyper 1 ((s_factor st)[0 := f0] ! 1),
                  Factor 1 (s_tau st) ((s_factor st)[0 := f0]) (fst h1) (snd h1),
                  Hyper 2 ((s_factor st)[0 := f0, 1 := f1] ! 2),
                  Factor 2 (s_tau st) ((s_factor st)[0 := f0, 1 := f1]) (fst h2) (snd h2),
                  Combine ((s_factor st)[0 := f0, 1 := f1, 2 := f2]),
                  Precision tensor_hat tau']\<rparr>"
proof -
  from assms obtain st3 where
    loop: "fold_err (mode_update lib c) st [0..<3] = Inr st3"
    and rest: "(case cp_combine (s_factor st3) of
        Inl e \<Rightarrow> Inl e
      | Inr tensor_hat \<Rightarrow>
          (case sample_precision_tau lib (c_sparse_tensor c) tensor_hat (c_pos_train c)
                  (c_alpha c) (c_beta c) (s_gen st3) of
             Inl e \<Rightarrow> Inl e
           | Inr (tau', g') \<Rightarrow>
               Inr (st3\<lparr>s_tau := tau', s_gen := g',
                        s_calls := s_calls st3 @ [Combine (s_factor st3), Precision tensor_hat tau']\<rparr>,
                    tensor_hat))) = Inr (st', tensor_hat)"
    unfolding sweep_def by (auto split: sum.splits)
  from loop obtain st1 st2 where
    m0: "mode_update lib c st 0 = Inr st1" and
    m1: "mode_update lib c st1 1 = Inr st2" and
    m2: "mode_update lib c st2 2 = Inr st3"
    unfolding fold_err_three by (auto split: sum.splits)
  from mode_update_Inr[OF m0] obtain h0 g1 f0 g2 where
    a0: "sample_hyperparameter lib (s_factor st ! 0) (c_mu0 c) (c_beta0 c) (c_W0 c) (c_nu0 c) (s_gen st)
       = (h0, g1)"
    and b0: "sample_factor lib (c_sparse_tensor c) (c_binary_tensor c) (s_tau st) (s_factor st)
       (fst h0) (snd h0) 0 0 g1 = Inr (f0, g2)"
    and s1: "st1 = st\<lparr>s_factor := (s_factor st)[0 := f0], s_gen := g2,
               s_calls := s_calls st @
                 [Hyper 0 (s_factor st ! 0), Factor 0 (s_tau st) (s_factor st) (fst h0) (snd h0)]\<rparr>"
    by blast
  from mode_update_Inr[OF m1] obtain h1 g3 f1 g4 where
    a1: "sample_hyperparameter lib (s_factor st1 ! 1) (c_mu0 c) (c_beta0 c) (c_W0 c) (c_nu0 c) (s_gen st1)
       = (h1, g3)"
    and b1: "sample_factor lib (c_sparse_tensor c) (c_binary_tensor c) (s_tau st1) (s_factor st1)
       (fst h1) (snd h1) 1 0 g3 = Inr (f1, g4)"
    and s2: "st2 = st1\<lparr>s_factor := (s_factor st1)[1 := f1], s_gen := g4,
               s_calls := s_calls st1 @
                 [Hyper 1 (s_factor st1 ! 1), Factor 1 (s_tau st1) (s_factor st1) (fst h1) (snd h1)]\<rparr>"
    by blast
  from mode_update_Inr[OF m2] obtain h2 g5 f2 g6 where
    a2: "sample_hyperparameter lib (s_factor st2 ! 2) (c_mu0 c) (c_beta0 c) (c_W0 c) (c_nu0 c) (s_gen st2)
       = (h2, g5)"
    and b2: "sample_factor lib (c_sparse_tensor c) (c_binary_tensor c) (s_tau st2) (s_factor st2)
       (fst h2) (snd h2) 2 0 g5 = Inr (f2, g6)"
    and s3: "st3 = st2\<lparr>s_factor := (s_factor st2)[2 := f2], s_gen := g6,
               s_calls := s_calls st2 @
                 [Hyper 2 (s_factor st2 ! 2), Factor 2 (s_tau st2) (s_factor st2) (fst h2) (snd h2)]\<rparr>"
    by blast
  from rest obtain tau' g7 where
    cp: "cp_combine (s_factor st3) = Inr tensor_hat"
    and pr: "sample_precision_tau lib (c_sparse_tensor c) tensor_hat (c_pos_train c) (c_alpha c)
        (c_beta c) (s_gen st3) = Inr (tau', g7)"
    and s4: "st' = st3\<lparr>s_tau := tau', s_gen := g7,
                        s_calls := s_calls st3 @ [Combine (s_factor st3), Precision tensor_hat tau']\<rparr>"
    by (auto split: sum.splits prod.splits)
  have a1': "sample_hyperparameter lib ((s_factor st)[0 := f0] ! 1) (c_mu0 c) (c_beta0 c) (c_W0 c)
       (c_nu0 c) g2 = (h1, g3)"
    using a1 by (simp add: s1)
  have b1': "sample_factor lib (c_sparse_tensor c) (c_binary_tensor c) (s_tau st) ((s_factor st)[0 := f0])
       (fst h1) (snd h1) 1 0 g3 = Inr (f1, g4)"
    using b1 by (simp add: s1)
  have a2': "sample_hyperparameter lib ((s_factor st)[0 := f0, 1 := f1] ! 2) (c_mu0 c) (c_beta0 c) (c_W0 c)
       (c_nu0 c) g4 = (h2, g5)"
    using a2 by (simp add: s2 s1)
  have b2': "sample_factor lib (c_sparse_tensor c) (c_binary_tensor c) (s_tau st)
       ((s_factor st)[0 := f0, 1 := f1]) (fst h2) (snd h2) 2 0 g5 = Inr (f2, g6)"
    using b2 by (simp add: s2 s1)
  have cp': "cp_combine ((s_factor st)[0 := f0, 1 := f1, 2 := f2]) = Inr tensor_hat"
    using cp by (simp add: s3 s2 s1)
  have pr': "sample_precision_tau lib (c_sparse_tensor c) tensor_hat (c_pos_train c) (c_alpha c)
       (c_beta c) g6 = Inr (tau', g7)"
    using pr by (simp add: s3)
  have s4': "st' = st\<lparr>s_factor := (s_factor st)[0 := f0, 1 := f1, 2 := f2], s_tau := tau', s_gen := g7,
               s_calls := s_calls st @
                 [Hyper 0 (s_factor st ! 0),
                  Factor 0 (s_tau st) (s_factor st) (fst h0) (snd h0),
                  Hyper 1 ((s_factor st)[0 := f0] ! 1),
                  Factor 1 (s_tau st) ((s_factor st)[0 := f0]) (fst h1) (snd h1),
                  Hyper 2 ((s_factor st)[0 := f0, 1 := f1] ! 2),
                  Factor 2 (s_tau st) ((s_factor st)[0 := f0, 1 := f1]) (fst h2) (snd h2),
                  Combine ((s_factor st)[0 := f0, 1 := f1, 2 := f2]),
                  Precision tensor_hat tau']\<rparr>"
    using s4 by (simp add: s3 s2 s1)
  show ?thesis
    using a0 b0 a1' b1' a2' b2' cp' pr' s4' by blast
qed

lemma accumulate_fields [simp]:
  "s_factor (accumulate c it st tensor_hat) = s_factor st"
  "s_tau (accumulate c it st tensor_hat) = s_tau st"
  "s_gen (accumulate c it st tensor_hat) = s_gen st"
  "s_calls (accumulate c it st tensor_hat) = s_calls st"
  "s_printed (accumulate c it st tensor_hat) = s_printed st"
  by (simp_all add: accumulate_def)

lemma iteration_Inr:
  assumes "iteration lib c st it = Inr st2"
  shows "\<exists>st1 tensor_hat printed.
     sweep lib c st = Inr (st1, tensor_hat) \<and>
     st2 = (accumulate c it st1 tensor_hat)\<lparr>s_printed := printed\<rparr>"
proof -
  from assms obtain st1 tensor_hat where sw: "sweep lib c st = Inr (st1, tensor_hat)"
    unfolding iteration_def by (auto split: sum.splits)
  have "st2 = (accumulate c it st1 tensor_hat)\<lparr>s_printed := s_printed st2\<rparr>"
    using assms unfolding iteration_def sw
    by (auto simp: Let_def split: sum.splits if_splits)
  with sw show ?thesis by blast
qed

lemma run_iterations_0 [simp]: "run_iterations lib c factor g 0 = Inr (init_state c factor g)"
  by (simp add: run_iterations_def)

lemma run_iterations_Suc:
  "run_iterations lib c factor g (Suc n) =
     (case run_iterations lib c factor g n of Inl e \<Rightarrow> Inl e | Inr st \<Rightarrow> iteration lib c st n)"
  unfolding run_iterations_def by (rule fold_err_upt_Suc)

lemma run_iterations_Suc_Inr:
  assumes "run_iterations lib c factor g (Suc n) = Inr st2"
  shows "\<exists>st. run_iterations lib c factor g n = Inr st \<and> iteration lib c st n = Inr st2"
  using assms by (auto simp: run_iterations_Suc split: sum.splits)

lemma run_iterations_prefix:
  assumes "run_iterations lib c factor g n = Inr st" "s \<le> n"
  shows "\<exists>st'. run_iterations lib c factor g s = Inr st'"
  using assms
proof (induction n arbitrary: st)
  case 0
  then show ?case by simp
next
  case (Suc n)
  show ?case
  proof (cases "s = Suc n")
    case True
    then show ?thesis using Suc.prems(1) by blast
  next
    case False
    from run_iterations_Suc_Inr[OF Suc.prems(1)] obtain st0
      where "run_iterations lib c factor g n = Inr st0" by blast
    then show ?thesis using Suc.IH[of st0] Suc.prems(2) False by simp
  qed
qed

text \<open>
  C3: in every iteration of the loop of \<open>BGCP\<close> that raises nothing, the calls are made in
  the order hyperparameters of mode 0, factor 0, hyperparameters of mode 1, factor 1,
  hyperparameters of mode 2, factor 2, \<open>cp_combine\<close>, \<open>sample_precision_tau\<close>: the random
  generator is threaded through them in this order and the call log grows by exactly these
  eight calls.  The hyperparameters of mode \<open>k\<close> are drawn from the current matrix \<open>k\<close> and
  passed to the draw of factor \<open>k\<close>; the factor list given to \<open>sample_factor\<close> for mode 1
  holds the new matrix 0, and for mode 2 the new matrices 0 and 1; all three draws get the
  precision of the state before the sweep.  The tensor is reconstructed from the three
  new matrices, and the precision is redrawn once, from that reconstruction.
\<close>

theorem sweep_order:
  assumes "run_iterations lib c factor g (Suc it) = Inr st2"
  shows "\<exists>st h0 g1 f0 g2 h1 g3 f1 g4 h2 g5 f2 g6 tensor_hat tau' g7.
     run_iterations lib c factor g it = Inr st \<and>
     sample_hyperparameter lib (s_factor st ! 0) (c_mu0 c) (c_beta0 c) (c_W0 c) (c_nu0 c) (s_gen st)
       = (h0, g1) \<and>
     sample_factor lib (c_sparse_tensor c) (c_binary_tensor c) (s_tau st) (s_factor st)
       (fst h0) (snd h0) 0 0 g1 = Inr (f0, g2) \<and>
     sample_hyperparameter lib ((s_factor st)[0 := f0] ! 1) (c_mu0 c) (c_beta0 c) (c_W0 c) (c_nu0 c) g2
       = (h1, g3) \<and>
     sample_factor lib (c_sparse_tensor c) (c_binary_tensor c) (s_tau st) ((s_factor st)[0 := f0])
       (fst h1) (snd h1) 1 0 g3 = Inr (f1, g4) \<and>
     sample_hyperparameter lib ((s_factor st)[0 := f0, 1 := f1] ! 2) (c_mu0 c) (c_beta0 c) (c_W0 c)
       (c_nu0 c) g4 = (h2, g5) \<and>
     sample_factor lib (c_sparse_tensor c) (c_binary_tensor c) (s_tau st)
       ((s_factor st)[0 := f0, 1 := f1]) (fst h2) (snd h2) 2 0 g5 = Inr (f2, g6) \<and>
     cp_combine ((s_factor st)[0 := f0, 1 := f1, 2 := f2]) = Inr tensor_hat \<and>
     sample_precision_tau lib (c_sparse_tensor c) tensor_hat (c_pos_train c) (c_alpha c) (c_beta c) g6
       = Inr (tau', g7) \<and>
     s_factor st2 = (s_factor st)[0 := f0, 1 := f1, 2 := f2] \<and>
     s_tau st2 = tau' \<and> s_gen st2 = g7 \<and>
     s_calls st2 = s_calls st @
       [Hyper 0 (s_factor st ! 0),
        Factor 0 (s_tau st) (s_factor st) (fst h0) (snd h0),
        Hyper 1 ((s_factor st)[0 := f0] ! 1),
        Factor 1 (s_tau st) ((s_factor st)[0 := f0]) (fst h1) (snd h1),
        Hyper 2 ((s_factor st)[0 := f0, 1 := f1] ! 2),
        Factor 2 (s_tau st) ((s_factor st)[0 := f0, 1 := f1]) (fst h2) (snd h2),
        Combine ((s_factor st)[0 := f0, 1 := f1, 2 := f2]),
        Precision tensor_hat tau']"
proof -
  from run_iterations_Suc_Inr[OF assms] obtain st where
    r: "run_iterations lib c factor g it = Inr st" and i: "iteration lib c st it = Inr st2"
    by blast
  from iteration_Inr[OF i] obtain st1 tensor_hat printed where
    sw: "sweep lib c st = Inr (st1, tensor_hat)"
    and st2: "st2 = (accumulate c it st1 tensor_hat)\<lparr>s_printed := printed\<rparr>"
    by blast
  have f: "s_factor st2 = s_factor st1" "s_tau st2 = s_tau st1" "s_gen st2 = s_gen st1"
    "s_calls st2 = s_calls st1"
    by (simp_all add: st2)
  from sweep_Inr[OF sw] r show ?thesis
    unfolding f by (elim exE conjE) (intro exI conjI, assumption+, simp_all)
qed

text \<open>
  The square root has no executable code equation; evaluation leaves it uninterpreted.
\<close>

declare sqrt_def [code del]

lemma init_state_fields [simp]:
  "s_factor (init_state c factor g) = factor"
  "s_tau (init_state c factor g) = 1"
  "s_gen (init_state c factor g) = g"
  "s_calls (init_state c factor g) = []"
  "s_printed (init_state c factor g) = []"
  by (simp_all add: init_state_def split: prod.splits)

theorem sweep_order_witness:
  "\<exists>c st2. bgcp_setup [[[2, 4]]] [[[2, 4]]] [[[1, 1]], [[1, 1]], [[1, 1], [1, 1]]] 1 2 = Inr c \<and>
     run_iterations unit_lib c [[[1, 1]], [[1, 1]], [[1, 1], [1, 1]]] 0 (Suc 0) = Inr st2 \<and>
     length (s_calls st2) = 8 \<and> s_tau st2 = 2 \<and> s_gen st2 = 11"
proof -
  have "(case bgcp_setup [[[2, 4]]] [[[2, 4]]] [[[1, 1]], [[1, 1]], [[1, 1], [1, 1]]] 1 2 of
      Inl e \<Rightarrow> False
    | Inr c \<Rightarrow> (case run_iterations unit_lib c [[[1, 1]], [[1, 1]], [[1, 1], [1, 1]]] 0 (Suc 0) of
                  Inl e \<Rightarrow> False
                | Inr st \<Rightarrow> s_tau st = 2 \<and> s_gen st = 11))"
    by code_simp
  then obtain c st2 where c: "bgcp_setup [[[2, 4]]] [[[2, 4]]] [[[1, 1]], [[1, 1]], [[1, 1], [1, 1]]] 1 2 = Inr c"
    and r: "run_iterations unit_lib c [[[1, 1]], [[1, 1]], [[1, 1], [1, 1]]] 0 (Suc 0) = Inr st2"
    and v: "s_tau st2 = 2" "s_gen st2 = 11"
    by (auto split: sum.splits)
  from sweep_order[OF r] have "length (s_calls st2) = 8"
    by (elim exE conjE) auto
  with c r v show ?thesis by blast
qed

lemma sweep_loop:
  assumes "sweep lib c st = Inr (st', tensor_hat)"
  shows "\<exists>st3. fold_err (mode_update lib c) st [0..<3] = Inr st3 \<and>
     cp_combine (s_factor st3) = Inr tensor_hat \<and>
     sample_precision_tau lib (c_sparse_tensor c) tensor_hat (c_pos_train c) (c_alpha c) (c_beta c)
       (s_gen st3) = Inr (s_tau st', s_gen st') \<and>
     s_factor st' = s_factor st3"
  using assms unfolding sweep_def
  by (auto split: sum.splits prod.splits)

text \<open>
  C10: the variable \<^verbatim>\<open>tau\<close> is 1 when the first iteration starts, and in every iteration of
  the loop of \<open>BGCP\<close> that raises nothing the three calls of \<open>sample_factor\<close> are made with
  the value \<^verbatim>\<open>tau\<close> has when the iteration starts.  In a later iteration this value is the
  one that \<open>sample_precision_tau\<close> returned at the end of the iteration before, where it
  was called, after the loop over the three modes, with the reconstruction of the
  matrices that loop left; the generator it returned is the one the iteration starts with.
  The matrices that the three calls return are the factor list after the iteration.
\<close>

theorem precision_of_factor_draws:
  assumes "run_iterations lib c factor g (Suc it) = Inr st2"
  shows "\<exists>st tau h0 g1 f0 g2 h1 g3 f1 g4 h2 g5 f2 g6.
     run_iterations lib c factor g it = Inr st \<and> s_tau st = tau \<and>
     (it = 0 \<longrightarrow> tau = 1) \<and>
     (\<forall>j. it = Suc j \<longrightarrow>
        (\<exists>st0 st3 tensor_hat.
           run_iterations lib c factor g j = Inr st0 \<and>
           fold_err (mode_update lib c) st0 [0..<3] = Inr st3 \<and>
           cp_combine (s_factor st3) = Inr tensor_hat \<and>
           sample_precision_tau lib (c_sparse_tensor c) tensor_hat (c_pos_train c) (c_alpha c)
             (c_beta c) (s_gen st3) = Inr (tau, s_gen st))) \<and>
     sample_hyperparameter lib (s_factor st ! 0) (c_mu0 c) (c_beta0 c) (c_W0 c) (c_nu0 c) (s_gen st)
       = (h0, g1) \<and>
     sample_factor lib (c_sparse_tensor c) (c_binary_tensor c) tau (s_factor st)
       (fst h0) (snd h0) 0 0 g1 = Inr (f0, g2) \<and>
     sample_hyperparameter lib ((s_factor st)[0 := f0] ! 1) (c_mu0 c) (c_beta0 c) (c_W0 c) (c_nu0 c) g2
       = (h1, g3) \<and>
     sample_factor lib (c_sparse_tensor c) (c_binary_tensor c) tau ((s_factor st)[0 := f0])
       (fst h1) (snd h1) 1 0 g3 = Inr (f1, g4) \<and>
     sample_hyperparameter lib ((s_factor st)[0 := f0, 1 := f1] ! 2) (c_mu0 c) (c_beta0 c) (c_W0 c)
       (c_nu0 c) g4 = (h2, g5) \<and>
     sample_factor lib (c_sparse_tensor c) (c_binary_tensor c) tau
       ((s_factor st)[0 := f0, 1 := f1]) (fst h2) (snd h2) 2 0 g5 = Inr (f2, g6) \<and>
     s_factor st2 = (s_factor st)[0 := f0, 1 := f1, 2 := f2]"
proof -
  from run_iterations_Suc_Inr[OF assms] obtain st where
    r: "run_iterations lib c factor g it = Inr st" and i: "iteration lib c st it = Inr st2"
    by blast
  from iteration_Inr[OF i] obtain st1 tensor_hat printed where
    sw: "sweep lib c st = Inr (st1, tensor_hat)"
    and st2: "st2 = (accumulate c it st1 tensor_hat)\<lparr>s_printed := printed\<rparr>"
    by blast
  have f: "s_factor st2 = s_factor st1"
    by (simp add: st2)
  have first: "s_tau st = 1" if "it = 0"
    using r that by auto
  have later: "\<exists>st0 st3 tensor_hat.
       run_iterations lib c factor g j = Inr st0 \<and>
       fold_err (mode_update lib c) st0 [0..<3] = Inr st3 \<and>
       cp_combine (s_factor st3) = Inr tensor_hat \<and>
       sample_precision_tau lib (c_sparse_tensor c) tensor_hat (c_pos_train c) (c_alpha c)
         (c_beta c) (s_gen st3) = Inr (s_tau st, s_gen st)"
    if "it = Suc j" for j
  proof -
    from r that have "run_iterations lib c factor g (Suc j) = Inr st" by simp
    from run_iterations_Suc_Inr[OF this] obtain st0 where
      r0: "run_iterations lib c factor g j = Inr st0" and i0: "iteration lib c st0 j = Inr st"
      by blast
    from iteration_Inr[OF i0] obtain sta that0 printed0 where
      sw0: "sweep lib c st0 = Inr (sta, that0)"
      and st: "st = (accumulate c j sta that0)\<lparr>s_printed := printed0\<rparr>"
      by blast
    have e: "s_tau st = s_tau sta" "s_gen st = s_gen sta"
      by (simp_all add: st)
    from sweep_loop[OF sw0] r0 show ?thesis
      unfolding e by blast
  qed
  from sweep_Inr[OF sw] obtain h0 g1 f0 g2 h1 g3 f1 g4 h2 g5 f2 g6 where
    ch: "sample_hyperparameter lib (s_factor st ! 0) (c_mu0 c) (c_beta0 c) (c_W0 c) (c_nu0 c) (s_gen st)
       = (h0, g1)"
     "sample_factor lib (c_sparse_tensor c) (c_binary_tensor c) (s_tau st) (s_factor st)
       (fst h0) (snd h0) 0 0 g1 = Inr (f0, g2)"
     "sample_hyperparameter lib ((s_factor st)[0 := f0] ! 1) (c_mu0 c) (c_beta0 c) (c_W0 c) (c_nu0 c) g2
       = (h1, g3)"
     "sample_factor lib (c_sparse_tensor c) (c_binary_tensor c) (s_tau st) ((s_factor st)[0 := f0])
       (fst h1) (snd h1) 1 0 g3 = Inr (f1, g4)"
     "sample_hyperparameter lib ((s_factor st)[0 := f0, 1 := f1] ! 2) (c_mu0 c) (c_beta0 c) (c_W0 c)
       (c_nu0 c) g4 = (h2, g5)"
     "sample_factor lib (c_sparse_tensor c) (c_binary_tensor c) (s_tau st)
       ((s_factor st)[0 := f0, 1 := f1]) (fst h2) (snd h2) 2 0 g5 = Inr (f2, g6)"
     and fs: "s_factor st1 = (s_factor st)[0 := f0, 1 := f1, 2 := f2]"
    by (elim exE conjE) simp
  from r first later ch fs show ?thesis
    unfolding f by blast
qed

theorem precision_of_factor_draws_witness:
  "\<exists>c st0 st st2.
     bgcp_setup [[[2, 4]]] [[[2, 4]]] [[[1, 1]], [[1, 1]], [[1, 1], [1, 1]]] 1 2 = Inr c \<and>
     run_iterations unit_lib c [[[1, 1]], [[1, 1]], [[1, 1], [1, 1]]] 0 0 = Inr st0 \<and>
     run_iterations unit_lib c [[[1, 1]], [[1, 1]], [[1, 1], [1, 1]]] 0 (Suc 0) = Inr st \<and>
     run_iterations unit_lib c [[[1, 1]], [[1, 1]], [[1, 1], [1, 1]]] 0 (Suc (Suc 0)) = Inr st2 \<and>
     s_tau st0 = 1 \<and> s_tau st = 2"
proof -
  let ?F = "[[[1, 1]], [[1, 1]], [[1, 1], [1, 1 :: real]]]"
  have "(case bgcp_setup [[[2, 4]]] [[[2, 4]]] ?F 1 2 of
      Inl e \<Rightarrow> False
    | Inr c \<Rightarrow> (case run_iterations unit_lib c ?F 0 (Suc (Suc 0)) of
                  Inl e \<Rightarrow> False
                | Inr st \<Rightarrow> True))"
    by code_simp
  then obtain c st2 where c: "bgcp_setup [[[2, 4]]] [[[2, 4]]] ?F 1 2 = Inr c"
    and r: "run_iterations unit_lib c ?F 0 (Suc (Suc 0)) = Inr st2"
    by (auto split: sum.splits)
  from precision_of_factor_draws[OF r] obtain st tensor_hat ga where
    s: "run_iterations unit_lib c ?F 0 (Suc 0) = Inr st"
    and p: "sample_precision_tau unit_lib (c_sparse_tensor c) tensor_hat (c_pos_train c) (c_alpha c)
             (c_beta c) ga = Inr (s_tau st, s_gen st)"
    by blast
  from p have two: "s_tau st = 2"
    by (auto simp: sample_precision_tau_def unit_lib_def Let_def split: sum.splits)
  from precision_of_factor_draws[OF s] obtain st0 where
    z: "run_iterations unit_lib c ?F 0 0 = Inr st0" and one: "s_tau st0 = 1"
    by blast
  from c z s r one two show ?thesis by blast
qed

section \<open>The accumulators and the returned means\<close>

lemma sweep_preserves:
  assumes "sweep lib c st = Inr (st1, tensor_hat)"
  shows "s_factor_plus st1 = s_factor_plus st" "s_tensor_hat_plus st1 = s_tensor_hat_plus st"
    "s_printed st1 = s_printed st" "cp_combine (s_factor st1) = Inr tensor_hat"
  using sweep_Inr[OF assms] by (elim exE conjE, simp)+

lemma iteration_accumulators:
  assumes "iteration lib c st it = Inr st2"
  shows "cp_combine (s_factor st2) = Inr tensor_hat \<Longrightarrow>
      s_tensor_hat_plus st2 = (if int it + 1 > c_burn_iter c
        then tensor_add (s_tensor_hat_plus st) tensor_hat else s_tensor_hat_plus st)"
    and "s_factor_plus st2 = (if int it + 1 > c_burn_iter c
        then map (\<lambda>k. mat_add (s_factor_plus st ! k) (s_factor st2 ! k)) [0..<3]
        else s_factor_plus st)"
    and "\<exists>tensor_hat. cp_combine (s_factor st2) = Inr tensor_hat"
proof -
  from iteration_Inr[OF assms] obtain st1 that printed where
    sw: "sweep lib c st = Inr (st1, that)"
    and st2: "st2 = (accumulate c it st1 that)\<lparr>s_printed := printed\<rparr>"
    by blast
  note p = sweep_preserves[OF sw]
  have f: "s_factor st2 = s_factor st1" by (simp add: st2)
  show "\<exists>tensor_hat. cp_combine (s_factor st2) = Inr tensor_hat"
    using p(4) f by simp
  show "s_factor_plus st2 = (if int it + 1 > c_burn_iter c
        then map (\<lambda>k. mat_add (s_factor_plus st ! k) (s_factor st2 ! k)) [0..<3]
        else s_factor_plus st)"
    unfolding f by (simp add: st2 accumulate_def p)
  show "s_tensor_hat_plus st2 = (if int it + 1 > c_burn_iter c
        then tensor_add (s_tensor_hat_plus st) tensor_hat else s_tensor_hat_plus st)"
    if "cp_combine (s_factor st2) = Inr tensor_hat"
    using that p(4) unfolding f by (simp add: st2 accumulate_def p)
qed

lemma factor_sample_eq:
  "run_iterations lib c factor g s = Inr st \<Longrightarrow> factor_sample lib c factor g s = s_factor st"
  by (simp add: factor_sample_def)

lemma reconstruction_eq:
  "run_iterations lib c factor g s = Inr st \<Longrightarrow> cp_combine (s_factor st) = Inr t \<Longrightarrow>
     reconstruction lib c factor g s = t"
  by (simp add: reconstruction_def factor_sample_def)

lemma accumulators_invariant:
  assumes "run_iterations lib c factor g n = Inr st" "0 \<le> c_burn_iter c"
  shows "s_tensor_hat_plus st
       = foldl tensor_add (s_tensor_hat_plus (init_state c factor g))
           (map (reconstruction lib c factor g) [nat (c_burn_iter c) + 1..<n + 1]) \<and>
     s_factor_plus st
       = map (\<lambda>k. foldl mat_add (s_factor_plus (init_state c factor g) ! k)
           (map (\<lambda>s. factor_sample lib c factor g s ! k) [nat (c_burn_iter c) + 1..<n + 1])) [0..<3]"
  using assms(1)
proof (induction n arbitrary: st)
  case 0
  have "map (\<lambda>k. s_factor_plus (init_state c factor g) ! k) [0..<3]
      = s_factor_plus (init_state c factor g)"
    by (rule list_grid) (simp add: init_state_def split: prod.splits)
  with 0 show ?case by simp
next
  case (Suc n)
  let ?b = "nat (c_burn_iter c)"
  from run_iterations_Suc_Inr[OF Suc.prems] obtain st0 where
    r: "run_iterations lib c factor g n = Inr st0" and i: "iteration lib c st0 n = Inr st"
    by blast
  note ih = Suc.IH[OF r]
  from iteration_accumulators(3)[OF i] obtain that where cp: "cp_combine (s_factor st) = Inr that"
    by blast
  note acc = iteration_accumulators(1)[OF i cp] iteration_accumulators(2)[OF i]
  have rec: "reconstruction lib c factor g (Suc n) = that"
    by (rule reconstruction_eq[OF Suc.prems cp])
  have smp: "factor_sample lib c factor g (Suc n) = s_factor st"
    by (rule factor_sample_eq[OF Suc.prems])
  show ?case
  proof (cases "int n + 1 > c_burn_iter c")
    case True
    then have le: "?b + 1 \<le> n + 1" using assms(2) by linarith
    have up: "[?b + 1..<Suc n + 1] = [?b + 1..<n + 1] @ [Suc n]"
      using le by simp
    show ?thesis
      unfolding up using True ih by (simp add: acc rec smp)
  next
    case False
    then have "n + 1 \<le> ?b" using assms(2) by linarith
    then have up: "[?b + 1..<Suc n + 1] = []" "[?b + 1..<n + 1] = []"
      by simp_all
    show ?thesis
      using False ih unfolding up by (simp add: acc)
  qed
qed


text \<open>
  C4: when \<open>BGCP\<close> returns, the accumulators \<^verbatim>\<open>tensor_hat_plus\<close> and \<^verbatim>\<open>factor_plus\<close> still hold
  their initial zeros after each of the first \<open>burn_iter\<close> iterations, the returned tensor
  is the arithmetic mean of the reconstructions \<^verbatim>\<open>cp_combine(factor)\<close> of the iterations
  \<open>burn_iter + 1\<close> to \<open>burn_iter + gibbs_iter\<close>, and each returned factor matrix is the
  arithmetic mean of the factor matrices sampled in these iterations.
\<close>

theorem outputs_are_means:
  assumes "0 \<le> burn_iter" "0 < gibbs_iter"
    and "BGCP lib dense_tensor sparse_tensor factor burn_iter gibbs_iter g
           = Inr ((tensor_hat, factor'), printed)"
  shows "\<exists>c m n f.
     bgcp_setup dense_tensor sparse_tensor factor burn_iter gibbs_iter = Inr c \<and>
     c_shape c = (m, n, f) \<and>
     (\<forall>s\<le>nat burn_iter. \<exists>st. run_iterations lib c factor g s = Inr st \<and>
         s_tensor_hat_plus st = zeros3 m n f \<and>
         s_factor_plus st = map (\<lambda>d. zeros2 d (c_rank c)) [m, n, f]) \<and>
     tensor_hat = tensor_mean (m, n, f)
       (map (reconstruction lib c factor g)
          [nat burn_iter + 1..<nat burn_iter + nat gibbs_iter + 1]) \<and>
     factor' = map (\<lambda>k. mat_mean ([m, n, f] ! k) (c_rank c)
       (map (\<lambda>s. factor_sample lib c factor g s ! k)
          [nat burn_iter + 1..<nat burn_iter + nat gibbs_iter + 1])) [0..<3]"
proof -
  let ?b = "nat burn_iter" and ?n = "nat burn_iter + nat gibbs_iter"
  from assms(3) obtain c st where
    c: "bgcp_setup dense_tensor sparse_tensor factor burn_iter gibbs_iter = Inr c"
    and r: "run_iterations lib c factor g (nat (burn_iter + gibbs_iter)) = Inr st"
    and th: "tensor_hat = tensor_div (s_tensor_hat_plus st) (real_of_int gibbs_iter)"
    and fa: "factor' = map (\<lambda>a. mat_div a (real_of_int gibbs_iter)) (s_factor_plus st)"
    unfolding BGCP_def by (auto simp: Let_def split: sum.splits)
  obtain m n f where sh: "c_shape c = (m, n, f)" by (cases "c_shape c") auto
  note fs = bgcp_setup_fields[OF c]
  have b: "0 \<le> c_burn_iter c" using assms(1) by (simp add: fs)
  have nn: "nat (burn_iter + gibbs_iter) = ?n" using assms(1,2) by (simp add: nat_add_distrib)
  have i0: "s_tensor_hat_plus (init_state c factor g) = zeros3 m n f"
    "s_factor_plus (init_state c factor g) = map (\<lambda>d. zeros2 d (c_rank c)) [m, n, f]"
    by (simp_all add: init_state_def sh)
  have i1: "s_factor_plus (init_state c factor g) ! k = zeros2 ([m, n, f] ! k) (c_rank c)"
    if "k < 3" for k
  proof -
    from that consider "k = 0" | "k = 1" | "k = 2" by linarith
    then show ?thesis unfolding i0 by cases simp_all
  qed
  have burn: "\<exists>st. run_iterations lib c factor g s = Inr st \<and>
         s_tensor_hat_plus st = zeros3 m n f \<and>
         s_factor_plus st = map (\<lambda>d. zeros2 d (c_rank c)) [m, n, f]" if "s \<le> ?b" for s
  proof -
    have "s \<le> nat (burn_iter + gibbs_iter)" using that nn by simp
    from run_iterations_prefix[OF r this] obtain st' where
      r': "run_iterations lib c factor g s = Inr st'" by blast
    have e: "[nat (c_burn_iter c) + 1..<s + 1] = []" using that by (simp add: fs)
    have "map (\<lambda>k. s_factor_plus (init_state c factor g) ! k) [0..<3]
        = s_factor_plus (init_state c factor g)"
      by (rule list_grid) (simp add: i0)
    then have "s_tensor_hat_plus st' = zeros3 m n f \<and>
        s_factor_plus st' = map (\<lambda>d. zeros2 d (c_rank c)) [m, n, f]"
      using accumulators_invariant[OF r' b] unfolding e by (simp add: i0)
    with r' show ?thesis by blast
  qed
  note inv = accumulators_invariant[OF r b, unfolded nn fs(7)]
  have len: "real (length [?b + 1..<?n + 1]) = real_of_int gibbs_iter"
    using assms(2) by simp
  have t: "tensor_hat = tensor_mean (m, n, f)
       (map (reconstruction lib c factor g) [?b + 1..<?n + 1])"
    unfolding th tensor_mean_def using inv len by (simp add: i0)
  have "map (\<lambda>a. mat_div a (real_of_int gibbs_iter)) (s_factor_plus st)
      = map (\<lambda>k. mat_mean ([m, n, f] ! k) (c_rank c)
          (map (\<lambda>s. factor_sample lib c factor g s ! k) [?b + 1..<?n + 1])) [0..<3]"
    unfolding conjunct2[OF inv] map_map o_def mat_mean_def
    using len by (intro map_cong refl) (simp add: i1)
  with fa have f': "factor' = map (\<lambda>k. mat_mean ([m, n, f] ! k) (c_rank c)
          (map (\<lambda>s. factor_sample lib c factor g s ! k) [?b + 1..<?n + 1])) [0..<3]"
    by simp
  show ?thesis
    using c sh burn t f' by blast
qed


theorem outputs_are_means_witness:
  "(0::int) \<le> 1 \<and> (0::int) < 2 \<and>
   BGCP unit_lib [[[2, 4]]] [[[2, 4]]] [[[1, 1]], [[1, 1]], [[1, 1], [1, 1]]] 1 2 0
     = Inr (([[[2, 2]]], [[[1, 1]], [[1, 1]], [[1, 1], [1, 1]]]), [Imputation NonFinite NonFinite]) \<and>
   (\<exists>c. bgcp_setup [[[2, 4]]] [[[2, 4]]] [[[1, 1]], [[1, 1]], [[1, 1], [1, 1]]] 1 2 = Inr c \<and>
        tensor_mean (1, 1, 2)
          (map (reconstruction unit_lib c [[[1, 1]], [[1, 1]], [[1, 1], [1, 1]]] 0) [2..<4]) = [[[2, 2]]])"
proof -
  have "(case BGCP unit_lib [[[2, 4]]] [[[2, 4]]] [[[1, 1]], [[1, 1]], [[1, 1], [1, 1]]] 1 2 0 of
      Inl e \<Rightarrow> False
    | Inr out \<Rightarrow> out = (([[[2, 2]]], [[[1, 1]], [[1, 1]], [[1, 1], [1, 1]]]), [Imputation NonFinite NonFinite]))"
    by code_simp
  then have v: "BGCP unit_lib [[[2, 4]]] [[[2, 4]]] [[[1, 1]], [[1, 1]], [[1, 1], [1, 1]]] 1 2 0
     = Inr (([[[2, 2]]], [[[1, 1]], [[1, 1]], [[1, 1], [1, 1]]]), [Imputation NonFinite NonFinite])"
    by (auto split: sum.splits)
  from outputs_are_means[OF _ _ v] obtain c m n f where
    c: "bgcp_setup [[[2, 4]]] [[[2, 4]]] [[[1, 1]], [[1, 1]], [[1, 1], [1, 1]]] 1 2 = Inr c"
    and sh: "c_shape c = (m, n, f)"
    and t: "[[[2, 2]]] = tensor_mean (m, n, f)
       (map (reconstruction unit_lib c [[[1, 1]], [[1, 1]], [[1, 1], [1, 1]]] 0) [nat 1 + 1..<nat 1 + nat 2 + 1])"
    by auto
  have "(m, n, f) = (1, 1, 2)"
    using bgcp_setup_fields(6)[OF c] sh by (simp add: shape3_def ncols_def)
  moreover have "[nat 1 + 1..<nat 1 + nat 2 + 1] = [2..<4]" by simp
  ultimately have "tensor_mean (1, 1, 2)
          (map (reconstruction unit_lib c [[[1, 1]], [[1, 1]], [[1, 1], [1, 1]]] 0) [2..<4]) = [[[2, 2]]]"
    using t by (simp add: eval_nat_numeral)
  with v c show ?thesis by auto
qed

section \<open>Factor lists with surplus matrices\<close>












end
